theory Spec2Isabelle
  imports Complex_Main
begin

section \<open>Number model\<close>

text \<open>
  The calculator works on JavaScript numbers. They are modelled as \<^typ>\<open>real\<close>: every
  formula below is the source's formula read in exact arithmetic, so rounding of IEEE
  doubles is outside the model, except for the expressions that decide whether the
  optimizer's re-evaluation complies, which are modelled a second time with the rounding
  of each operation (section \<open>Double arithmetic on the outlet path\<close>). \<open>Math.sqrt\<close>, \<open>Math.log\<close>, \<open>Math.exp\<close>, \<open>Math.pow\<close>,
  \<open>Math.ceil\<close>, \<open>Math.abs\<close>, \<open>Math.max\<close> and \<open>Math.min\<close> are \<^const>\<open>sqrt\<close>, \<^const>\<open>ln\<close>,
  \<^const>\<open>exp\<close>, \<^const>\<open>powr\<close>, \<^const>\<open>ceiling\<close>, \<^const>\<open>abs\<close>, \<^const>\<open>max\<close> and \<^const>\<open>min\<close>.
  Where the source would produce \<open>NaN\<close> or \<open>Infinity\<close> (a division by zero, a root or a
  logarithm of a negative number) the model has HOL's value of the total function
  instead; the theorems that need a meaningful quotient derive a non-zero divisor from
  their hypotheses.

  \<open>NaN\<close> is modelled where a table lookup produces it: the results computed from the
  fields of a pollutant entry are of type \<^typ>\<open>real option\<close>, with \<^const>\<open>None\<close> for \<open>NaN\<close>.

  An optional field (\<open>gasViscosity?\<close>, \<open>kgaOverride?\<close>, \<open>nozzleType?\<close>) is an
  \<^typ>\<open>'a option\<close>, \<^const>\<open>None\<close> for \<open>undefined\<close>. The source reads the numeric ones with
  \<open>a || b\<close>, which takes \<open>b\<close> when \<open>a\<close> is falsy: \<open>undefined\<close> or \<open>0\<close>.
\<close>

definition falsy_or :: "real option \<Rightarrow> real \<Rightarrow> real" where
  "falsy_or a b = (case a of None \<Rightarrow> b | Some v \<Rightarrow> if v = 0 then b else v)"

text \<open>
  Reading a property of \<open>undefined\<close> throws a \<open>TypeError\<close>; it is the only exception
  the calculation modules can raise.
\<close>

datatype error = TypeError

section \<open>Lookups in object literals\<close>

text \<open>
  The tables of the program are object literals. \<open>table[key]\<close> finds the table's own
  property of that name; failing that, the member of that name which the table inherits
  from \<open>Object.prototype\<close>; failing that, it is \<open>undefined\<close>. An inherited member is a
  function (the prototype object itself for \<open>__proto__\<close>): it is truthy and has none of
  the fields of a table entry, so reading such a field of it gives \<open>undefined\<close> and no
  exception, and arithmetic on that gives \<open>NaN\<close>. The own properties of a table are a
  map, and \<open>objectLookup\<close> is what \<open>table[key]\<close> finds.
\<close>

datatype 'a js_member = Undefined | Inherited | Own 'a

definition ObjectPrototype :: "string list" where
  "ObjectPrototype =
     [''constructor'', ''__defineGetter__'', ''__defineSetter__'', ''hasOwnProperty'',
      ''__lookupGetter__'', ''__lookupSetter__'', ''isPrototypeOf'', ''propertyIsEnumerable'',
      ''toString'', ''valueOf'', ''__proto__'', ''toLocaleString'']"

definition objectLookup :: "(string \<rightharpoonup> 'a) \<Rightarrow> string \<Rightarrow> 'a js_member" where
  "objectLookup table key =
     (case table key of
        Some entry \<Rightarrow> Own entry
      | None \<Rightarrow> if key \<in> set ObjectPrototype then Inherited else Undefined)"

text \<open>
  A numeric field read from what a lookup found, \<^const>\<open>None\<close> when it is \<open>undefined\<close>, and
  arithmetic in which an \<open>undefined\<close> or \<open>NaN\<close> operand gives \<open>NaN\<close>.
\<close>

definition readField :: "('a \<Rightarrow> real) \<Rightarrow> 'a js_member \<Rightarrow> real option" where
  "readField f found = (case found of Own entry \<Rightarrow> Some (f entry) | _ \<Rightarrow> None)"

definition arith2 :: "(real \<Rightarrow> real \<Rightarrow> real) \<Rightarrow> real option \<Rightarrow> real option \<Rightarrow> real option" where
  "arith2 f a b = (case (a, b) of (Some x, Some y) \<Rightarrow> Some (f x y) | _ \<Rightarrow> None)"

section \<open>Data model (types/index.ts)\<close>

datatype RegulatoryFramework = EU | US
datatype UnitSystem = metric | imperial
datatype ApplicationType = gas_absorption | particulate_removal | cooling | odor_control

record GasStreamProperties =
  gasFlowRate :: real
  temperature :: real
  pressure :: real
  gasViscosity :: "real option"

text \<open>
  \<open>PollutantType\<close> is a union of four string literals that is erased at run time, and
  the tables are indexed by string, so the pollutant type is a \<^typ>\<open>string\<close>.
\<close>

record PollutantProperties =
  type :: string
  inletConcentration :: real
  targetEfficiency :: real

record TowerParameters =
  lgRatio :: real
  liquidDensity :: real
  liquidViscosity :: real
  gasVelocity :: real
  dropletSize :: real
  nozzleType :: "string option"
  nozzlePressure :: real
  kgaOverride :: "real option"
  frictionFactor :: real
  pumpHead :: real
  naohStoichiometry :: real

record SystemSettings =
  unitSystem :: UnitSystem
  regulatoryFramework :: RegulatoryFramework
  applicationType :: ApplicationType

record CalculatorInput =
  gasStream :: GasStreamProperties
  pollutant :: PollutantProperties
  tower :: TowerParameters
  settings :: SystemSettings

record PollutantData =
  henryConstant :: real
  diffusivity :: real
  molarMass :: real

record NozzleData =
  nozzle_type :: string
  k :: real
  description :: string

record GasPropertiesResults =
  operatingTemp :: real
  operatingPressure :: real
  gasDensity :: real
  operatingGasFlow :: real
  effectiveGasViscosity :: real

record TowerSizingResults =
  towerArea :: real
  towerDiameter :: real
  liquidFlowRate :: real
  liquidRate :: real
  liquidFlux :: real

record MassTransferResults =
  dropletDiameter :: real
  relativeVelocity :: real
  reynoldsNumber :: real
  schmidtNumber :: "real option"
  sherwoodNumber :: "real option"
  gasFilmCoefficient :: "real option"
  interfacialArea :: real
  overallKGa :: real

record DropletPhysics =
  terminalVelocity :: real
  relativeVelocity :: real
  contactTime :: real
  reynoldsNumber :: real

record ParticulateEfficiency =
  coarse_10um :: real
  medium_2um :: real
  fine_1um :: real

record PerformanceResults =
  requiredHeight :: real
  gasResidenceTime :: real
  outletConcentration :: real
  pressureDrop :: real
  molesRemoved :: "real option"
  naohConsumption :: "real option"
  numberOfTransferUnits :: real
  nozzleFlowPerNozzle :: "real option"
  requiredNozzles :: "real option"

record ComplianceStatus =
  framework :: RegulatoryFramework
  emissionLimitsMet :: bool
  pressureVesselCode :: string
  safetyClassification :: string

text \<open>
  \<open>CalculationResults\<close> repeats field names of the intermediate records; those are
  written with their record's name in front (\<open>PerformanceResults.requiredHeight\<close>). The
  fields of type \<^typ>\<open>real option\<close> in \<open>MassTransferResults\<close> and the fields \<open>molesRemoved\<close>,
  \<open>naohConsumption\<close>, \<open>schmidtNumber\<close> and \<open>sherwoodNumber\<close> are numbers that are \<open>NaN\<close>
  (\<^const>\<open>None\<close>) when the pollutant lookup finds an inherited member; \<open>nozzleFlowPerNozzle\<close>
  and \<open>requiredNozzles\<close> are optional fields (\<^const>\<open>None\<close> for \<open>undefined\<close>).
\<close>

record CalculationResults =
  towerDiameter :: real
  requiredHeight :: real
  gasResidenceTime :: real
  pressureDrop :: real
  outletConcentration :: real
  overallKGa :: real
  interfacialArea :: real
  gasDensity :: real
  liquidRate :: real
  naohConsumption :: "real option"
  operatingGasFlow :: real
  towerArea :: real
  liquidFlowRate :: real
  nozzleFlowPerNozzle :: "real option"
  requiredNozzles :: "real option"
  molesRemoved :: "real option"
  numberOfTransferUnits :: real
  dropletTerminalVelocity :: real
  relativeVelocity :: real
  dropletContactTime :: real
  reynoldsNumber :: real
  schmidtNumber :: "real option"
  sherwoodNumber :: "real option"
  particulateEfficiency :: "ParticulateEfficiency option"
  complianceStatus :: ComplianceStatus

section \<open>Constants (lib/constants.ts)\<close>

definition R_GAS :: real where "R_GAS = 8.314462618"
definition M_AIR :: real where "M_AIR = 0.02897"
definition MU_GAS_DEFAULT :: real where "MU_GAS_DEFAULT = 0.0000185"

definition POLLUTANT_LIBRARY :: "string \<rightharpoonup> PollutantData" where
  "POLLUTANT_LIBRARY = map_of
     [(''SO2'', \<lparr>henryConstant = 1230, diffusivity = 0.000012, molarMass = 64.066\<rparr>),
      (''HCl'', \<lparr>henryConstant = 0.194, diffusivity = 0.000016, molarMass = 36.461\<rparr>),
      (''NH3'', \<lparr>henryConstant = 6600, diffusivity = 0.000021, molarMass = 17.031\<rparr>),
      (''H2S'', \<lparr>henryConstant = 930, diffusivity = 0.000014, molarMass = 34.08\<rparr>)]"

definition NOZZLE_LIBRARY :: "string \<rightharpoonup> NozzleData" where
  "NOZZLE_LIBRARY = map_of
     [(''FullCone-1/2-15'',
         \<lparr>nozzle_type = ''FullCone-1/2-15'', k = 1.5, description = ''Medium flow''\<rparr>),
      (''HollowCone-3/4-25'',
         \<lparr>nozzle_type = ''HollowCone-3/4-25'', k = 2.6, description = ''Higher flow''\<rparr>),
      (''Spiral-1/2-10'',
         \<lparr>nozzle_type = ''Spiral-1/2-10'', k = 1.2, description = ''Fine droplets''\<rparr>)]"

text \<open>The entries of \<open>UNIT_CONVERSIONS\<close> and \<open>CORRELATIONS\<close> that the calculation reads.\<close>

definition kPa_to_Pa :: real where "kPa_to_Pa = 1000"
definition Pa_to_inH2O :: real where "Pa_to_inH2O = 0.00401463"
definition C_to_K :: real where "C_to_K = 273.15"
definition mm_to_m :: real where "mm_to_m = 0.001"
definition m_to_ft :: real where "m_to_ft = 3.28084"
definition m2_to_ft2 :: real where "m2_to_ft2 = 10.7639"
definition m3h_to_acfm :: real where "m3h_to_acfm = 0.588578"
definition m3h_to_gpm :: real where "m3h_to_gpm = 4.40287"
definition kg_m3_to_lb_ft3 :: real where "kg_m3_to_lb_ft3 = 0.062428"
definition m_s_to_ft_s :: real where "m_s_to_ft_s = 3.28084"
definition h_to_s :: real where "h_to_s = 3600"

definition STANDARD_TEMP :: real where "STANDARD_TEMP = 273.15"
definition STANDARD_PRESSURE :: real where "STANDARD_PRESSURE = 101325"
definition SHERWOOD_CONSTANT_A :: real where "SHERWOOD_CONSTANT_A = 2"
definition SHERWOOD_CONSTANT_B :: real where "SHERWOOD_CONSTANT_B = 0.6"
definition SHERWOOD_REYNOLDS_EXP :: real where "SHERWOOD_REYNOLDS_EXP = 0.5"
definition SHERWOOD_SCHMIDT_EXP :: real where "SHERWOOD_SCHMIDT_EXP = 1 / 3"

section \<open>Gas properties (gas-properties.ts)\<close>

definition calculateGasProperties :: "GasStreamProperties \<Rightarrow> GasPropertiesResults" where
  "calculateGasProperties gs =
     (let operatingTemp = temperature gs + C_to_K;
          operatingPressure = pressure gs * kPa_to_Pa;
          gasDensity = (operatingPressure * M_AIR) / (R_GAS * operatingTemp);
          standardFlow_m3s = gasFlowRate gs / h_to_s;
          operatingGasFlow = standardFlow_m3s * (operatingTemp / STANDARD_TEMP) *
                             (STANDARD_PRESSURE / operatingPressure);
          effectiveGasViscosity = falsy_or (gasViscosity gs) MU_GAS_DEFAULT
      in \<lparr>operatingTemp = operatingTemp,
          operatingPressure = operatingPressure,
          GasPropertiesResults.gasDensity = gasDensity,
          GasPropertiesResults.operatingGasFlow = operatingGasFlow,
          effectiveGasViscosity = effectiveGasViscosity\<rparr>)"

section \<open>Tower sizing (tower-sizing.ts)\<close>

definition calculateTowerSizing :: "real \<Rightarrow> real \<Rightarrow> real \<Rightarrow> TowerSizingResults" where
  "calculateTowerSizing = (\<lambda>operatingGasFlow gasVelocity lgRatio.
      let towerArea = operatingGasFlow / gasVelocity;
          towerDiameter = sqrt ((4 * towerArea) / pi);
          liquidFlowRate = lgRatio * operatingGasFlow;
          liquidRate = liquidFlowRate * 3600;
          liquidFlux = liquidFlowRate / towerArea
      in \<lparr>TowerSizingResults.towerArea = towerArea,
          TowerSizingResults.towerDiameter = towerDiameter,
          TowerSizingResults.liquidFlowRate = liquidFlowRate,
          TowerSizingResults.liquidRate = liquidRate,
          liquidFlux = liquidFlux\<rparr>)"

section \<open>Mass transfer (mass-transfer.ts)\<close>

text \<open>
  When \<open>POLLUTANT_LIBRARY[pollutant.type]\<close> is \<open>undefined\<close>, the first read of a field of
  it (\<open>pollutantData.diffusivity\<close>) throws. Nothing before that read has an effect, so
  the model decides the lookup first. When the lookup finds an inherited member, the
  diffusivity read from it is \<open>undefined\<close>, and the Schmidt number, the Sherwood number and
  the gas-film coefficient are \<open>NaN\<close>.
\<close>

definition calculatedKGa :: "real \<Rightarrow> real \<Rightarrow> real \<Rightarrow> real" where
  "calculatedKGa = (\<lambda>gasDensity gasVelocity liquidFlux.
      if liquidFlux > 0 then
        (let approximateGasMolarFlow = (gasDensity * gasVelocity * 1) / 29;
             liquidFluxLiterPerSm2 = liquidFlux * 1000
         in 0.1586 * (approximateGasMolarFlow powr 0.8) * (liquidFluxLiterPerSm2 powr 0.4))
      else 0)"

definition calculateMassTransfer ::
  "PollutantProperties \<Rightarrow> TowerParameters \<Rightarrow> real \<Rightarrow> real \<Rightarrow> real \<Rightarrow> real
     \<Rightarrow> error + MassTransferResults" where
  "calculateMassTransfer = (\<lambda>pollutant tower gasDensity gasViscosity gasVelocity liquidFlux.
      case objectLookup POLLUTANT_LIBRARY (type pollutant) of
        Undefined \<Rightarrow> Inl TypeError
      | pollutantData \<Rightarrow>
          (let dropletDiameter = dropletSize tower * mm_to_m;
               relativeVelocity = gasVelocity;
               reynoldsNumber = (gasDensity * relativeVelocity * dropletDiameter) / gasViscosity;
               schmidtNumber =
                 map_option (\<lambda>diffusivity. gasViscosity / (gasDensity * diffusivity))
                   (readField diffusivity pollutantData);
               sherwoodNumber =
                 map_option (\<lambda>schmidtNumber. SHERWOOD_CONSTANT_A +
                   SHERWOOD_CONSTANT_B * (reynoldsNumber powr SHERWOOD_REYNOLDS_EXP) *
                   (schmidtNumber powr SHERWOOD_SCHMIDT_EXP)) schmidtNumber;
               gasFilmCoefficient =
                 arith2 (\<lambda>sherwoodNumber diffusivity.
                     (sherwoodNumber * diffusivity) / dropletDiameter)
                   sherwoodNumber (readField diffusivity pollutantData);
               interfacialArea = (if relativeVelocity > 0
                 then (6 * liquidFlux) / (relativeVelocity * dropletDiameter) else 0);
               overallKGa = falsy_or (kgaOverride tower)
                 (calculatedKGa gasDensity gasVelocity liquidFlux)
           in Inr \<lparr>dropletDiameter = dropletDiameter,
                   MassTransferResults.relativeVelocity = relativeVelocity,
                   MassTransferResults.reynoldsNumber = reynoldsNumber,
                   MassTransferResults.schmidtNumber = schmidtNumber,
                   MassTransferResults.sherwoodNumber = sherwoodNumber,
                   gasFilmCoefficient = gasFilmCoefficient,
                   MassTransferResults.interfacialArea = interfacialArea,
                   MassTransferResults.overallKGa = overallKGa\<rparr>))"

section \<open>Performance (performance.ts)\<close>

text \<open>The NTU, the spray-zone volume and the height, as the function computes them in turn.\<close>

definition numberOfTransferUnitsOf :: "real \<Rightarrow> real \<Rightarrow> real" where
  "numberOfTransferUnitsOf inlet outlet = (if outlet > 0 then ln (inlet / outlet) else 0)"

definition molarGasFlowOf :: "real \<Rightarrow> real \<Rightarrow> real" where
  "molarGasFlowOf = (\<lambda>operatingGasFlow operatingTemp.
      (101325 * operatingGasFlow) / (8314.462618 * operatingTemp))"

definition sprayZoneVolumeOf :: "real \<Rightarrow> real \<Rightarrow> real \<Rightarrow> real" where
  "sprayZoneVolumeOf = (\<lambda>molarGasFlow numberOfTransferUnits overallKGa.
      if overallKGa > 0 \<and> numberOfTransferUnits > 0
      then (molarGasFlow * numberOfTransferUnits) / overallKGa else 0)"

definition requiredHeightOf :: "real \<Rightarrow> real \<Rightarrow> real" where
  "requiredHeightOf = (\<lambda>towerArea sprayZoneVolume.
      if towerArea > 0 \<and> sprayZoneVolume > 0 then sprayZoneVolume / towerArea else 0)"

text \<open>
  \<open>tower.nozzleType && NOZZLE_LIBRARY[tower.nozzleType]\<close>: an absent or empty nozzle
  type is falsy, and so is a type that the nozzle table does not have. A nozzle type
  that names an inherited member, which would make the two nozzle results \<open>NaN\<close>, is not
  considered; no property below reads the nozzle results.
\<close>

definition nozzleLookup :: "string option \<Rightarrow> NozzleData option" where
  "nozzleLookup nt =
     (case nt of None \<Rightarrow> None | Some n \<Rightarrow> if n = [] then None else NOZZLE_LIBRARY n)"

definition calculatePerformance ::
  "PollutantProperties \<Rightarrow> TowerParameters \<Rightarrow> real \<Rightarrow> real \<Rightarrow> real \<Rightarrow> real \<Rightarrow> real
     \<Rightarrow> real \<Rightarrow> real \<Rightarrow> real \<Rightarrow> real \<Rightarrow> error + PerformanceResults" where
  "calculatePerformance = (\<lambda>pollutant tower gasFlowRate gasVelocity towerDiameter gasDensity
       liquidRate overallKGa towerArea operatingGasFlow operatingTemp.
      case objectLookup POLLUTANT_LIBRARY (type pollutant) of
        Undefined \<Rightarrow> Inl TypeError
      | pollutantData \<Rightarrow>
          (let outletConcentration =
                 inletConcentration pollutant * (1 - targetEfficiency pollutant);
               numberOfTransferUnits =
                 numberOfTransferUnitsOf (inletConcentration pollutant) outletConcentration;
               molarGasFlow = molarGasFlowOf operatingGasFlow operatingTemp;
               sprayZoneVolume = sprayZoneVolumeOf molarGasFlow numberOfTransferUnits overallKGa;
               requiredHeight = requiredHeightOf towerArea sprayZoneVolume;
               gasResidenceTime = (if gasVelocity > 0 then requiredHeight / gasVelocity else 0);
               pressureDrop = frictionFactor tower * (requiredHeight / towerDiameter) *
                 (gasDensity * gasVelocity ^ 2 / 2);
               concentrationDifference = inletConcentration pollutant - outletConcentration;
               molesRemoved =
                 map_option (\<lambda>molarMass.
                     (gasFlowRate * concentrationDifference / 1000) / molarMass * 1000)
                   (readField molarMass pollutantData);
               naohConsumption =
                 map_option (\<lambda>molesRemoved. molesRemoved * naohStoichiometry tower)
                   molesRemoved;
               nozzleFlowPerNozzle =
                 map_option (\<lambda>nozzleData. k nozzleData * sqrt (nozzlePressure tower))
                   (nozzleLookup (nozzleType tower));
               requiredNozzles =
                 map_option (\<lambda>flow. real_of_int \<lceil>liquidRate / flow\<rceil>) nozzleFlowPerNozzle
           in Inr \<lparr>PerformanceResults.requiredHeight = requiredHeight,
                   PerformanceResults.gasResidenceTime = gasResidenceTime,
                   PerformanceResults.outletConcentration = outletConcentration,
                   PerformanceResults.pressureDrop = pressureDrop,
                   PerformanceResults.molesRemoved = molesRemoved,
                   PerformanceResults.naohConsumption = naohConsumption,
                   PerformanceResults.numberOfTransferUnits = numberOfTransferUnits,
                   PerformanceResults.nozzleFlowPerNozzle = nozzleFlowPerNozzle,
                   PerformanceResults.requiredNozzles = requiredNozzles\<rparr>))"

section \<open>Droplet physics, particulate efficiency, compliance (advanced-calculations.ts)\<close>

text \<open>
  One pass of the body of the terminal-velocity loop: the Schiller-Naumann drag
  coefficient at the current velocity, replaced by 0.44 above a Reynolds number of 1000,
  and the velocity that balances it.
\<close>

definition newVelocity :: "real \<Rightarrow> real \<Rightarrow> real \<Rightarrow> real \<Rightarrow> real \<Rightarrow> real" where
  "newVelocity = (\<lambda>dropletDiameter gasDensity gasViscosity liquidDensity terminalVelocity.
      let reynolds = (gasDensity * terminalVelocity * dropletDiameter) / gasViscosity;
          dragCoeff0 = 24 / reynolds * (1 + 0.15 * (reynolds powr 0.687));
          dragCoeff = (if reynolds > 1000 then 0.44 else dragCoeff0);
          gravity = 9.80665
      in sqrt ((4 * gravity * dropletDiameter * (liquidDensity - gasDensity)) /
               (3 * dragCoeff * gasDensity)))"

text \<open>
  \<open>for (let i = 0; i < 10; i++)\<close> with its \<open>break\<close>: the loop counter \<open>i\<close> and the
  current \<open>terminalVelocity\<close> are the state.
\<close>

function terminalVelocityLoop ::
  "real \<Rightarrow> real \<Rightarrow> real \<Rightarrow> real \<Rightarrow> nat \<Rightarrow> real \<Rightarrow> real" where
  "terminalVelocityLoop dropletDiameter' gasDensity' gasViscosity' liquidDensity' i v =
     (if i < 10 then
        (let nv = newVelocity dropletDiameter' gasDensity' gasViscosity' liquidDensity' v
         in if \<bar>nv - v\<bar> < 0.001 then nv
            else terminalVelocityLoop dropletDiameter' gasDensity' gasViscosity' liquidDensity'
                   (Suc i) nv)
      else v)"
  by pat_completeness auto
termination
  by (relation "measure (\<lambda>(d, rg, mu, rl, i, v). 10 - i)") auto

declare terminalVelocityLoop.simps [simp del]

definition calculateDropletPhysics ::
  "real \<Rightarrow> real \<Rightarrow> real \<Rightarrow> real \<Rightarrow> real \<Rightarrow> real \<Rightarrow> DropletPhysics" where
  "calculateDropletPhysics =
     (\<lambda>dropletSize gasVelocity gasDensity gasViscosity liquidDensity sprayHeight.
      let dropletDiameter = dropletSize * 0.001;
          terminalVelocity =
            terminalVelocityLoop dropletDiameter gasDensity gasViscosity liquidDensity 0 1.0;
          relativeVelocity = max 0 (terminalVelocity - gasVelocity);
          contactTime = (if relativeVelocity > 0 then sprayHeight / relativeVelocity else 0);
          reynoldsNumber = (gasDensity * terminalVelocity * dropletDiameter) / gasViscosity
      in \<lparr>terminalVelocity = terminalVelocity,
          DropletPhysics.relativeVelocity = relativeVelocity,
          contactTime = contactTime,
          DropletPhysics.reynoldsNumber = reynoldsNumber\<rparr>)"

definition calculateParticulateEfficiency ::
  "real \<Rightarrow> real \<Rightarrow> real \<Rightarrow> real \<Rightarrow> real \<Rightarrow> ParticulateEfficiency" where
  "calculateParticulateEfficiency =
     (\<lambda>dropletSize gasVelocity liquidFlux sprayHeight relativeVelocity.
      let contactingPower = liquidFlux * relativeVelocity;
          residenceTime = sprayHeight / max gasVelocity 0.1;
          nt_coarse = min 10 (contactingPower * residenceTime * 50 / dropletSize);
          coarse_10um = min 0.99 (1 - exp (- nt_coarse));
          nt_medium = min 5 (contactingPower * residenceTime * 10 / dropletSize);
          medium_2um = min 0.80 (1 - exp (- nt_medium));
          nt_fine = min 2 (contactingPower * residenceTime * 2 / dropletSize);
          fine_1um = min 0.20 (1 - exp (- nt_fine))
      in \<lparr>coarse_10um = coarse_10um, medium_2um = medium_2um, fine_1um = fine_1um\<rparr>)"

text \<open>
  The table \<open>euLimits\<close>, written out with the same entries in \<open>calculateComplianceStatus\<close>
  and in \<open>getEmissionLimits\<close>; \<open>usLimits\<close> is in \<open>getEmissionLimits\<close> only.
\<close>

definition euLimits :: "string \<rightharpoonup> real" where
  "euLimits = map_of [(''SO2'', 200), (''HCl'', 10), (''NH3'', 50), (''H2S'', 5)]"

definition usLimits :: "string \<rightharpoonup> real" where
  "usLimits = map_of [(''SO2'', 400), (''HCl'', 25), (''NH3'', 100), (''H2S'', 15)]"

text \<open>
  \<open>if (limit && outletConcentration > limit)\<close>: a missing entry is \<open>undefined\<close>, which is
  falsy, and so would be an entry of 0. An inherited member is truthy, but a number
  compared with it is never greater, so it leaves \<open>emissionLimitsMet\<close> at \<open>true\<close> as a
  missing entry does. Under the US framework the function reads no table and leaves
  \<open>emissionLimitsMet\<close> at \<open>true\<close>.
\<close>

definition calculateComplianceStatus ::
  "RegulatoryFramework \<Rightarrow> real \<Rightarrow> real \<Rightarrow> string \<Rightarrow> ComplianceStatus" where
  "calculateComplianceStatus = (\<lambda>framework outletConcentration pressure pollutantType.
      case framework of
        EU \<Rightarrow>
          \<lparr>framework = framework,
           emissionLimitsMet =
             (case euLimits pollutantType of
                None \<Rightarrow> True
              | Some limit \<Rightarrow> \<not> (limit \<noteq> 0 \<and> outletConcentration > limit)),
           pressureVesselCode =
             (if pressure > 50000 then ''EU PED (>0.5 bar)'' else ''Atmospheric vessel''),
           safetyClassification = ''ATEX assessment required for flammable gases''\<rparr>
      | US \<Rightarrow>
          \<lparr>framework = framework,
           emissionLimitsMet = True,
           pressureVesselCode =
             (if pressure > 103421 then ''ASME BPVC Section VIII'' else ''Atmospheric vessel''),
           safetyClassification = ''OSHA/NFPA compliance required''\<rparr>)"

section \<open>The pipeline (calculator.ts)\<close>

definition calculateSprayTower :: "CalculatorInput \<Rightarrow> error + CalculationResults" where
  "calculateSprayTower input =
     (let gasProps = calculateGasProperties (gasStream input);
          towerSizing = calculateTowerSizing
            (GasPropertiesResults.operatingGasFlow gasProps)
            (gasVelocity (tower input))
            (lgRatio (tower input))
      in case calculateMassTransfer
            (pollutant input)
            (tower input)
            (GasPropertiesResults.gasDensity gasProps)
            (effectiveGasViscosity gasProps)
            (gasVelocity (tower input))
            (liquidFlux towerSizing) of
        Inl e \<Rightarrow> Inl e
      | Inr massTransfer \<Rightarrow>
      (let dropletPhysics = calculateDropletPhysics
            (dropletSize (tower input))
            (gasVelocity (tower input))
            (GasPropertiesResults.gasDensity gasProps)
            (effectiveGasViscosity gasProps)
            (liquidDensity (tower input))
            5.0
      in case calculatePerformance
            (pollutant input)
            (tower input)
            (gasFlowRate (gasStream input))
            (gasVelocity (tower input))
            (TowerSizingResults.towerDiameter towerSizing)
            (GasPropertiesResults.gasDensity gasProps)
            (TowerSizingResults.liquidRate towerSizing)
            (MassTransferResults.overallKGa massTransfer)
            (TowerSizingResults.towerArea towerSizing)
            (GasPropertiesResults.operatingGasFlow gasProps)
            (operatingTemp gasProps) of
        Inl e \<Rightarrow> Inl e
      | Inr performance \<Rightarrow>
      (let particulateEff = calculateParticulateEfficiency
            (dropletSize (tower input))
            (gasVelocity (tower input))
            (liquidFlux towerSizing)
            (PerformanceResults.requiredHeight performance)
            (DropletPhysics.relativeVelocity dropletPhysics);
          compliance = calculateComplianceStatus
            (regulatoryFramework (settings input))
            (PerformanceResults.outletConcentration performance)
            (operatingPressure gasProps)
            (type (pollutant input));
          isImperial = (unitSystem (settings input) = imperial);
          convertLength = (\<lambda>value. if isImperial then value * m_to_ft else value);
          convertArea = (\<lambda>value. if isImperial then value * m2_to_ft2 else value);
          convertPressure = (\<lambda>value. if isImperial then value * Pa_to_inH2O else value);
          convertDensity = (\<lambda>value. if isImperial then value * kg_m3_to_lb_ft3 else value);
          convertVelocity = (\<lambda>value. if isImperial then value * m_s_to_ft_s else value);
          convertLiquidRate = (\<lambda>value. if isImperial then value * m3h_to_gpm else value)
      in Inr
        \<lparr>towerDiameter = convertLength (TowerSizingResults.towerDiameter towerSizing),
         requiredHeight = convertLength (PerformanceResults.requiredHeight performance),
         gasResidenceTime = PerformanceResults.gasResidenceTime performance,
         pressureDrop = convertPressure (PerformanceResults.pressureDrop performance),
         outletConcentration = PerformanceResults.outletConcentration performance,
         overallKGa = MassTransferResults.overallKGa massTransfer,
         interfacialArea = MassTransferResults.interfacialArea massTransfer,
         gasDensity = convertDensity (GasPropertiesResults.gasDensity gasProps),
         liquidRate = convertLiquidRate (TowerSizingResults.liquidRate towerSizing),
         naohConsumption = PerformanceResults.naohConsumption performance,
         operatingGasFlow =
           (if isImperial then GasPropertiesResults.operatingGasFlow gasProps * 127133
            else GasPropertiesResults.operatingGasFlow gasProps),
         towerArea = convertArea (TowerSizingResults.towerArea towerSizing),
         liquidFlowRate =
           (if isImperial
            then TowerSizingResults.liquidFlowRate towerSizing * m3h_to_gpm / 60
            else TowerSizingResults.liquidFlowRate towerSizing),
         nozzleFlowPerNozzle =
           (case PerformanceResults.nozzleFlowPerNozzle performance of
              None \<Rightarrow> None
            | Some flow \<Rightarrow> if flow = 0 then None else Some (convertLiquidRate flow)),
         requiredNozzles = PerformanceResults.requiredNozzles performance,
         molesRemoved = PerformanceResults.molesRemoved performance,
         numberOfTransferUnits = PerformanceResults.numberOfTransferUnits performance,
         dropletTerminalVelocity = convertVelocity (terminalVelocity dropletPhysics),
         relativeVelocity = convertVelocity (DropletPhysics.relativeVelocity dropletPhysics),
         dropletContactTime = contactTime dropletPhysics,
         reynoldsNumber = MassTransferResults.reynoldsNumber massTransfer,
         schmidtNumber = MassTransferResults.schmidtNumber massTransfer,
         sherwoodNumber = MassTransferResults.sherwoodNumber massTransfer,
         particulateEfficiency = Some particulateEff,
         complianceStatus = compliance\<rparr>)))"

section \<open>The compliance optimizer (compliance-optimizer.ts)\<close>

text \<open>
  The optimizer's log is a list of formatted strings. Each line is kept here as a
  constructor holding the values the string is formatted from, in the order the source
  pushes them.
\<close>

datatype log_line =
    LogStart RegulatoryFramework
  | LogTarget string real
  | LogInitial real bool
  | LogAlreadyCompliant
  | LogLimit real real
  | LogRequiredEfficiency real
  | LogIncreaseLG nat real
  | LogAdjustVelocity nat real
  | LogReduceDroplet nat real
  | LogResult real real bool
  | LogAchieved nat
  | LogDiverging
  | LogCouldNot real
  | LogBestResult real real

text \<open>The variables of \<open>optimizeForCompliance\<close> that its loop changes.\<close>

record OptimizerState =
  currentInput :: CalculatorInput
  results :: CalculationResults
  bestResults :: "CalculationResults option"
  bestInput :: "CalculatorInput option"
  iterations :: nat
  convergenceReached :: bool
  logLines :: "log_line list"

record OptimizationResult =
  results :: CalculationResults
  optimizedInput :: CalculatorInput
  iterations :: nat
  convergenceReached :: bool
  optimizationLog :: "log_line list"

text \<open>
  \<open>euLimits[pollutantType] || 100\<close>. The function is private to its module and
  \<open>optimizeForCompliance\<close> calls it only after an evaluation that does not comply, which
  needs an own entry of the EU table; the name of an inherited member, for which \<open>||\<close>
  would return the member, does not reach it.
\<close>

definition getEmissionLimits :: "RegulatoryFramework \<Rightarrow> string \<Rightarrow> real" where
  "getEmissionLimits = (\<lambda>framework pollutantType.
      case framework of
        EU \<Rightarrow> falsy_or (euLimits pollutantType) 100
      | US \<Rightarrow> falsy_or (usLimits pollutantType) 200)"

text \<open>
  The three strategies at the head of the loop body: the new \<open>currentInput\<close> and the line
  pushed to the log. \<open>input\<close> is the caller's input, which the factors are applied to.
\<close>

definition strategy ::
  "CalculatorInput \<Rightarrow> real \<Rightarrow> real \<Rightarrow> nat \<Rightarrow> CalculatorInput \<Rightarrow> CalculatorInput \<times> log_line" where
  "strategy = (\<lambda>input maxIterations requiredEfficiency iterations currentInput.
      if real iterations \<le> maxIterations * 0.4 then
        (let lgIncreaseFactor = 1 + (real iterations * 0.1);
             currentInput = currentInput
               \<lparr>tower := (tower currentInput)
                  \<lparr>lgRatio := lgRatio (tower input) * lgIncreaseFactor\<rparr>,
                pollutant := (pollutant currentInput)
                  \<lparr>targetEfficiency := requiredEfficiency\<rparr>\<rparr>
         in (currentInput, LogIncreaseLG iterations (lgRatio (tower currentInput))))
      else if real iterations \<le> maxIterations * 0.7 then
        (let velocityFactor = max 0.5 (1 - (real iterations - maxIterations * 0.4) * 0.05);
             currentInput = currentInput
               \<lparr>tower := (tower currentInput)
                  \<lparr>gasVelocity := gasVelocity (tower input) * velocityFactor\<rparr>\<rparr>
         in (currentInput, LogAdjustVelocity iterations (gasVelocity (tower currentInput))))
      else
        (let dropletFactor = max 0.5 (1 - (real iterations - maxIterations * 0.7) * 0.1);
             currentInput = currentInput
               \<lparr>tower := (tower currentInput)
                  \<lparr>dropletSize := dropletSize (tower input) * dropletFactor\<rparr>\<rparr>
         in (currentInput, LogReduceDroplet iterations (dropletSize (tower currentInput)))))"



text \<open>
  After the loop: \<open>if (!convergenceReached && bestResults && bestInput)\<close> takes the best
  result retained; otherwise \<open>results\<close> and \<open>currentInput\<close> stay as the loop left them.
\<close>

definition useBestResult :: "real \<Rightarrow> real \<Rightarrow> OptimizerState \<Rightarrow> OptimizerState" where
  "useBestResult = (\<lambda>maxIterations emissionLimits s.
      case (bestResults s, bestInput s) of
        (Some best, Some bestIn) \<Rightarrow>
          if \<not> OptimizerState.convergenceReached s then
            s\<lparr>OptimizerState.results := best,
              currentInput := bestIn,
              logLines := logLines s @
                [LogCouldNot maxIterations,
                 LogBestResult (outletConcentration best) emissionLimits]\<rparr>
          else s
      | _ \<Rightarrow> s)"


definition shouldOptimizeForCompliance :: "CalculatorInput \<Rightarrow> error + bool" where
  "shouldOptimizeForCompliance input =
     (case calculateSprayTower input of
        Inl e \<Rightarrow> Inl e
      | Inr preliminaryResults \<Rightarrow>
          Inr (\<not> emissionLimitsMet (complianceStatus preliminaryResults)))"

section \<open>The default input (DEFAULT_VALUES in lib/constants.ts)\<close>

definition DEFAULT_gasStream :: GasStreamProperties where
  "DEFAULT_gasStream =
     \<lparr>gasFlowRate = 20000, temperature = 40, pressure = 101.325, gasViscosity = None\<rparr>"

definition DEFAULT_pollutant :: PollutantProperties where
  "DEFAULT_pollutant =
     \<lparr>type = ''SO2'', inletConcentration = 1500, targetEfficiency = 0.9\<rparr>"

definition DEFAULT_tower :: TowerParameters where
  "DEFAULT_tower =
     \<lparr>lgRatio = 0.015, liquidDensity = 1000, liquidViscosity = 0.001, gasVelocity = 3,
      dropletSize = 0.8, nozzleType = None, nozzlePressure = 1.5, kgaOverride = None,
      frictionFactor = 0.02, pumpHead = 10, naohStoichiometry = 1\<rparr>"

definition DEFAULT_settings :: SystemSettings where
  "DEFAULT_settings =
     \<lparr>unitSystem = metric, regulatoryFramework = EU, applicationType = gas_absorption\<rparr>"

definition DEFAULT_VALUES :: CalculatorInput where
  "DEFAULT_VALUES =
     \<lparr>gasStream = DEFAULT_gasStream, pollutant = DEFAULT_pollutant,
      tower = DEFAULT_tower, settings = DEFAULT_settings\<rparr>"

section \<open>Auxiliary definitions for the optimizer's loop\<close>








text \<open>
  The non-compliant scenario of the specification: the default input with a target
  efficiency of 0.5, whose outlet concentration of 750 mg/Nm3 is above the EU limit of
  200 mg/Nm3 for SO2.
\<close>

definition NON_COMPLIANT_input :: CalculatorInput where
  "NON_COMPLIANT_input = DEFAULT_VALUES\<lparr>pollutant := DEFAULT_pollutant\<lparr>targetEfficiency := 0.5\<rparr>\<rparr>"

section \<open>Double arithmetic on the outlet path\<close>

text \<open>
  The optimizer reads two things of a pipeline result to decide what to do next:
  \<open>outletConcentration\<close> and \<open>complianceStatus.emissionLimitsMet\<close>. Both come from the
  input through three expressions: \<open>emissionLimits * 0.9\<close> and
  \<open>1 - (targetOutletConcentration / input.pollutant.inletConcentration)\<close> in
  \<open>optimizeForCompliance\<close>, and \<open>pollutant.inletConcentration * (1 - pollutant.targetEfficiency)\<close>
  in \<open>calculatePerformance\<close>. In exact arithmetic the third expression applied to the
  result of the second gives back the first; in JavaScript each operation rounds, and
  whether the outlet concentration of the re-evaluation is at most the limit depends on
  the rounding. This section therefore models these expressions, and the optimizer over
  them, as JavaScript evaluates them: every operation is the exact operation followed by
  rounding to the nearest binary64 number, ties to the even significand.

  A binary64 number other than 0 is \<open>m * 2 ^ (e - 52)\<close> with an integer \<open>m\<close>,
  \<open>2 ^ 52 \<le> \<bar>m\<bar> < 2 ^ 53\<close>; for a real \<open>x\<close> the exponent \<open>e\<close> is \<open>binade x\<close>, the one
  with \<open>2 ^ e \<le> \<bar>x\<bar> < 2 ^ (e + 1)\<close>, and \<open>m\<close> is \<open>x / 2 ^ (e - 52)\<close> rounded to an integer.
  The exponent is not bounded here: overflow to \<open>Infinity\<close> and the subnormal numbers are
  not modelled. The decimal literal \<open>0.9\<close> of the source is the rounded \<open>roundToDouble 0.9\<close>.
\<close>

definition roundHalfEven :: "real \<Rightarrow> int" where
  "roundHalfEven y =
     (let f = \<lfloor>y\<rfloor>; r = y - of_int f
      in if r < 1 / 2 then f else if 1 / 2 < r then f + 1 else if even f then f else f + 1)"

definition pow2 :: "int \<Rightarrow> real" where
  "pow2 e = (if 0 \<le> e then 2 ^ nat e else 1 / 2 ^ nat (- e))"

definition binade :: "real \<Rightarrow> int" where
  "binade x = \<lfloor>log 2 \<bar>x\<bar>\<rfloor>"

definition roundToDouble :: "real \<Rightarrow> real" where
  "roundToDouble x =
     (if x = 0 then 0
      else of_int (roundHalfEven (x / pow2 (binade x - 52))) * pow2 (binade x - 52))"

text \<open>
  \<open>const targetOutletConcentration = emissionLimits * 0.9\<close> and
  \<open>const requiredEfficiency = 1 - (targetOutletConcentration / input.pollutant.inletConcentration)\<close>
  of \<open>optimizeForCompliance\<close>.
\<close>

definition targetOutletConcentration_double :: "real \<Rightarrow> real" where
  "targetOutletConcentration_double emissionLimits =
     roundToDouble (emissionLimits * roundToDouble 0.9)"

definition requiredEfficiency_double :: "real \<Rightarrow> real \<Rightarrow> real" where
  "requiredEfficiency_double target inlet = roundToDouble (1 - roundToDouble (target / inlet))"

text \<open>
  \<open>const outletConcentration = pollutant.inletConcentration * (1 - pollutant.targetEfficiency)\<close>
  of \<open>calculatePerformance\<close>.
\<close>

definition outletConcentration_double :: "real \<Rightarrow> real \<Rightarrow> real" where
  "outletConcentration_double inlet efficiency =
     roundToDouble (inlet * roundToDouble (1 - efficiency))"

text \<open>
  The pipeline with the outlet concentration in double arithmetic: step 5 of
  \<open>calculateSprayTower\<close> yields the rounded product as \<open>performance.outletConcentration\<close>,
  and step 7 computes the compliance status from it. The other results are those of
  \<^const>\<open>calculateSprayTower\<close>; the optimizer only logs them.
\<close>

definition calculateSprayTower_double :: "CalculatorInput \<Rightarrow> error + CalculationResults" where
  "calculateSprayTower_double input =
     (case calculateSprayTower input of
        Inl e \<Rightarrow> Inl e
      | Inr results' \<Rightarrow>
          (let outletConcentration' = outletConcentration_double
                 (inletConcentration (pollutant input)) (targetEfficiency (pollutant input))
           in Inr (results'
                \<lparr>outletConcentration := outletConcentration',
                 complianceStatus := calculateComplianceStatus
                   (regulatoryFramework (settings input))
                   outletConcentration'
                   (operatingPressure (calculateGasProperties (gasStream input)))
                   (type (pollutant input))\<rparr>)))"

text \<open>
  The loop and the body of \<open>optimizeForCompliance\<close> once more, over this pipeline and
  with the locals \<open>targetOutletConcentration\<close> and \<open>requiredEfficiency\<close> in double
  arithmetic. The doubling in the divergence check is exact in binary64.
\<close>

function optimizationLoop_double ::
  "CalculatorInput \<Rightarrow> real \<Rightarrow> real \<Rightarrow> real \<Rightarrow> OptimizerState \<Rightarrow> error + OptimizerState" where
  "optimizationLoop_double input' maxIterations' requiredEfficiency' targetOutletConcentration' s =
     (if real (OptimizerState.iterations s) \<le> maxIterations' then
        (let chosen = strategy input' maxIterations' requiredEfficiency'
                        (OptimizerState.iterations s) (currentInput s);
             current = fst chosen
         in case calculateSprayTower_double current of
              Inl e \<Rightarrow> Inl e
            | Inr res \<Rightarrow>
                (let s1 = s\<lparr>currentInput := current,
                            OptimizerState.results := res,
                            logLines := logLines s @
                              [snd chosen,
                               LogResult (outletConcentration res) (requiredHeight res)
                                 (emissionLimitsMet (complianceStatus res))]\<rparr>
                 in if emissionLimitsMet (complianceStatus res) then
                      Inr (s1\<lparr>OptimizerState.convergenceReached := True,
                              bestResults := Some res,
                              bestInput := Some current,
                              logLines := logLines s1 @
                                [LogAchieved (OptimizerState.iterations s)]\<rparr>)
                    else
                      (let better = (case bestResults s1 of
                                       None \<Rightarrow> True
                                     | Some best \<Rightarrow>
                                         outletConcentration res < outletConcentration best);
                           s2 = (if better
                                 then s1\<lparr>bestResults := Some res, bestInput := Some current\<rparr>
                                 else s1)
                       in if OptimizerState.iterations s > 5 \<and>
                             outletConcentration res > targetOutletConcentration' * 2
                          then Inr (s2\<lparr>logLines := logLines s2 @ [LogDiverging]\<rparr>)
                          else optimizationLoop_double input' maxIterations' requiredEfficiency'
                                 targetOutletConcentration'
                                 (s2\<lparr>OptimizerState.iterations :=
                                       Suc (OptimizerState.iterations s)\<rparr>))))
      else Inr s)"
  by pat_completeness auto
termination
proof (relation "measure (\<lambda>(inp, m, r, t, s). nat \<lfloor>m\<rfloor> + 1 - OptimizerState.iterations s)")
  show "wf (measure (\<lambda>(inp, m, r, t, s). nat \<lfloor>m\<rfloor> + 1 - OptimizerState.iterations s))"
    by simp
next
  fix input' :: CalculatorInput and maxIterations' requiredEfficiency' target' :: real
    and s s1 s2 :: OptimizerState
  assume le: "real (OptimizerState.iterations s) \<le> maxIterations'"
  have "int (OptimizerState.iterations s) \<le> \<lfloor>maxIterations'\<rfloor>"
    using le by (simp add: le_floor_iff)
  then have "OptimizerState.iterations s \<le> nat \<lfloor>maxIterations'\<rfloor>"
    by linarith
  then show "((input', maxIterations', requiredEfficiency', target',
               s2\<lparr>OptimizerState.iterations := Suc (OptimizerState.iterations s)\<rparr>),
              (input', maxIterations', requiredEfficiency', target', s))
             \<in> measure (\<lambda>(inp, m, r, t, s). nat \<lfloor>m\<rfloor> + 1 - OptimizerState.iterations s)"
    by simp
qed

declare optimizationLoop_double.simps [simp del]

definition optimizeForCompliance_double ::
  "CalculatorInput \<Rightarrow> real \<Rightarrow> error + OptimizationResult" where
  "optimizeForCompliance_double = (\<lambda>input maxIterations.
      case calculateSprayTower_double input of
        Inl e \<Rightarrow> Inl e
      | Inr results' \<Rightarrow>
          (let log0 =
                 [LogStart (regulatoryFramework (settings input)),
                  LogTarget (type (pollutant input)) (targetEfficiency (pollutant input)),
                  LogInitial (outletConcentration results')
                    (emissionLimitsMet (complianceStatus results'))]
           in if emissionLimitsMet (complianceStatus results') then
                Inr \<lparr>results = results',
                     optimizedInput = input,
                     iterations = 0,
                     convergenceReached = True,
                     optimizationLog = log0 @ [LogAlreadyCompliant]\<rparr>
              else
                (let emissionLimits = getEmissionLimits
                       (regulatoryFramework (settings input)) (type (pollutant input));
                     targetOutletConcentration = targetOutletConcentration_double emissionLimits;
                     requiredEfficiency = requiredEfficiency_double targetOutletConcentration
                       (inletConcentration (pollutant input));
                     log1 = log0 @
                       [LogLimit emissionLimits targetOutletConcentration,
                        LogRequiredEfficiency requiredEfficiency]
                 in case optimizationLoop_double input maxIterations requiredEfficiency
                           targetOutletConcentration
                           \<lparr>currentInput = input,
                            OptimizerState.results = results',
                            bestResults = None,
                            bestInput = None,
                            OptimizerState.iterations = 1,
                            OptimizerState.convergenceReached = False,
                            logLines = log1\<rparr> of
                      Inl e \<Rightarrow> Inl e
                    | Inr s \<Rightarrow>
                        (let s = useBestResult maxIterations emissionLimits s
                         in Inr \<lparr>results = OptimizerState.results s,
                                 optimizedInput = currentInput s,
                                 iterations = OptimizerState.iterations s,
                                 convergenceReached = OptimizerState.convergenceReached s,
                                 optimizationLog = logLines s\<rparr>))))"

text \<open>
  The non-compliant scenario with an inlet concentration of \<open>1e18\<close> mg/Nm3: the quotient
  \<open>180 / 1e18\<close> is of the size of the spacing of the binary64 numbers next to 1, so
  that the required efficiency, \<open>1\<close> minus the quotient, is rounded coarsely.
\<close>

definition HIGH_INLET_input :: CalculatorInput where
  "HIGH_INLET_input = DEFAULT_VALUES
     \<lparr>pollutant := DEFAULT_pollutant\<lparr>inletConcentration := 10 ^ 18, targetEfficiency := 0.5\<rparr>\<rparr>"

section \<open>Reference formula for the moles removed\<close>

text \<open>
  The specification's reading of the moles removed, to compare with the formula of
  \<open>calculatePerformance\<close>: the standard flow (Nm3/h) times the concentration difference
  (mg/Nm3) is a mass flow in mg/h, a thousandth of it is the mass flow in g/h, and that
  divided by the molar mass (g/mol) is the molar flow in mol/h.
\<close>

definition molesRemoved_mol_per_h :: "real \<Rightarrow> real \<Rightarrow> real \<Rightarrow> real" where
  "molesRemoved_mol_per_h standardFlow difference_mg_per_Nm3 molarMass_g_per_mol =
     (standardFlow * difference_mg_per_Nm3 / 1000) / molarMass_g_per_mol"

section \<open>Properties of the performance calculation\<close>

lemma POLLUTANT_LIBRARY_dom:
  "dom POLLUTANT_LIBRARY = {''SO2'', ''HCl'', ''NH3'', ''H2S''}"
  by (auto simp: POLLUTANT_LIBRARY_def split: if_splits)

lemma POLLUTANT_lookup_Own:
  "POLLUTANT_LIBRARY ty = Some d \<Longrightarrow> objectLookup POLLUTANT_LIBRARY ty = Own d"
  by (simp add: objectLookup_def)

lemma POLLUTANT_lookup_Undefined:
  assumes "ty \<notin> {''SO2'', ''HCl'', ''NH3'', ''H2S''}" and "ty \<notin> set ObjectPrototype"
  shows "objectLookup POLLUTANT_LIBRARY ty = Undefined"
proof -
  from assms(1) have "POLLUTANT_LIBRARY ty = None"
    using POLLUTANT_LIBRARY_dom by blast
  with assms(2) show ?thesis by (simp add: objectLookup_def)
qed

lemma POLLUTANT_lookup_constructor:
  "objectLookup POLLUTANT_LIBRARY ''constructor'' = Inherited"
  by (simp add: objectLookup_def POLLUTANT_LIBRARY_def ObjectPrototype_def)

lemma DEFAULT_pollutant_known:
  "POLLUTANT_LIBRARY (type DEFAULT_pollutant) =
     Some \<lparr>henryConstant = 1230, diffusivity = 0.000012, molarMass = 64.066\<rparr>"
  by (simp add: DEFAULT_pollutant_def POLLUTANT_LIBRARY_def)

lemma DEFAULT_pollutant_fields:
  "type DEFAULT_pollutant = ''SO2''" "inletConcentration DEFAULT_pollutant = 1500"
  "targetEfficiency DEFAULT_pollutant = 0.9"
  by (simp_all add: DEFAULT_pollutant_def)

lemma calculatePerformance_known:
  assumes "POLLUTANT_LIBRARY (type p) = Some d"
  shows "\<exists>r. calculatePerformance p tw q v dia rho lr kga area qop temp = Inr r
    \<and> PerformanceResults.outletConcentration r = inletConcentration p * (1 - targetEfficiency p)
    \<and> PerformanceResults.numberOfTransferUnits r =
        numberOfTransferUnitsOf (inletConcentration p) (inletConcentration p * (1 - targetEfficiency p))
    \<and> PerformanceResults.requiredHeight r =
        requiredHeightOf area (sprayZoneVolumeOf (molarGasFlowOf qop temp)
          (numberOfTransferUnitsOf (inletConcentration p) (inletConcentration p * (1 - targetEfficiency p))) kga)
    \<and> PerformanceResults.molesRemoved r =
        Some ((q * (inletConcentration p - inletConcentration p * (1 - targetEfficiency p)) / 1000)
              / molarMass d * 1000)
    \<and> PerformanceResults.naohConsumption r =
        map_option (\<lambda>molesRemoved. molesRemoved * naohStoichiometry tw)
          (PerformanceResults.molesRemoved r)"
  by (simp add: calculatePerformance_def Let_def POLLUTANT_lookup_Own [OF assms] readField_def)

text \<open>
  C1 (mass balance). For a pollutant of the table with a positive inlet concentration and a
  target efficiency strictly between 0 and 1, \<open>calculatePerformance\<close> returns, and its
  outlet concentration is the inlet concentration times (1 - target efficiency), whatever
  \<open>overallKGa\<close> and the other arguments are; it lies between 0 and the inlet concentration.
\<close>

theorem C1_mass_balance:
  assumes "type p \<in> dom POLLUTANT_LIBRARY"
    and "0 < inletConcentration p"
    and "0 < targetEfficiency p" and "targetEfficiency p < 1"
  shows "\<exists>r. calculatePerformance p tw q v dia rho lr kga area qop temp = Inr r
    \<and> PerformanceResults.outletConcentration r = inletConcentration p * (1 - targetEfficiency p)
    \<and> 0 \<le> PerformanceResults.outletConcentration r
    \<and> PerformanceResults.outletConcentration r \<le> inletConcentration p"
proof -
  from assms(1) obtain d where d: "POLLUTANT_LIBRARY (type p) = Some d" by auto
  from calculatePerformance_known [OF d] obtain r where
    r: "calculatePerformance p tw q v dia rho lr kga area qop temp = Inr r"
       "PerformanceResults.outletConcentration r = inletConcentration p * (1 - targetEfficiency p)"
    by blast
  have "0 \<le> inletConcentration p * (1 - targetEfficiency p)"
    using assms by simp
  moreover have "inletConcentration p * (1 - targetEfficiency p) \<le> inletConcentration p * 1"
    using assms by (intro mult_left_mono) simp_all
  ultimately show ?thesis using r by auto
qed

theorem C1_mass_balance_witness:
  "type DEFAULT_pollutant \<in> dom POLLUTANT_LIBRARY \<and> 0 < inletConcentration DEFAULT_pollutant
   \<and> 0 < targetEfficiency DEFAULT_pollutant \<and> targetEfficiency DEFAULT_pollutant < 1
   \<and> (\<exists>r. calculatePerformance DEFAULT_pollutant DEFAULT_tower 20000 3 1 1 1 1 1 1 300 = Inr r
        \<and> PerformanceResults.outletConcentration r = 150
        \<and> 0 \<le> PerformanceResults.outletConcentration r
        \<and> PerformanceResults.outletConcentration r \<le> 1500)"
proof -
  have h: "type DEFAULT_pollutant \<in> dom POLLUTANT_LIBRARY" "0 < inletConcentration DEFAULT_pollutant"
    "0 < targetEfficiency DEFAULT_pollutant" "targetEfficiency DEFAULT_pollutant < 1"
    by (simp_all add: DEFAULT_pollutant_def POLLUTANT_LIBRARY_def)
  from C1_mass_balance [OF h, of DEFAULT_tower 20000 3 1 1 1 1 1 1 300] h
  show ?thesis by (simp add: DEFAULT_pollutant_def)
qed

text \<open>
  C2 (NTU identity). For a pollutant of the table, the number of transfer units returned
  by \<open>calculatePerformance\<close> is \<open>ln (inlet / outlet)\<close> when the outlet concentration is
  positive, and 0 when the outlet concentration is 0.
\<close>

theorem C2_ntu_identity:
  assumes "type p \<in> dom POLLUTANT_LIBRARY"
  shows "\<exists>r. calculatePerformance p tw q v dia rho lr kga area qop temp = Inr r
    \<and> (0 < PerformanceResults.outletConcentration r \<longrightarrow>
         PerformanceResults.numberOfTransferUnits r =
           ln (inletConcentration p / PerformanceResults.outletConcentration r))
    \<and> (PerformanceResults.outletConcentration r = 0 \<longrightarrow>
         PerformanceResults.numberOfTransferUnits r = 0)"
proof -
  from assms obtain d where d: "POLLUTANT_LIBRARY (type p) = Some d" by auto
  from calculatePerformance_known [OF d, of tw q v dia rho lr kga area qop temp]
  show ?thesis by (auto simp: numberOfTransferUnitsOf_def)
qed

theorem C2_ntu_identity_witness:
  "type DEFAULT_pollutant \<in> dom POLLUTANT_LIBRARY
   \<and> (\<exists>r. calculatePerformance DEFAULT_pollutant DEFAULT_tower 20000 3 1 1 1 1 1 1 300 = Inr r
        \<and> 0 < PerformanceResults.outletConcentration r
        \<and> PerformanceResults.numberOfTransferUnits r = ln 10)
   \<and> (\<exists>r. calculatePerformance (DEFAULT_pollutant\<lparr>targetEfficiency := 1\<rparr>) DEFAULT_tower
             20000 3 1 1 1 1 1 1 300 = Inr r
        \<and> PerformanceResults.outletConcentration r = 0
        \<and> PerformanceResults.numberOfTransferUnits r = 0)"
proof -
  let ?p1 = "DEFAULT_pollutant\<lparr>targetEfficiency := 1\<rparr>"
  have k: "type DEFAULT_pollutant \<in> dom POLLUTANT_LIBRARY" "type ?p1 \<in> dom POLLUTANT_LIBRARY"
    using DEFAULT_pollutant_known by auto
  have k1: "POLLUTANT_LIBRARY (type ?p1) =
     Some \<lparr>henryConstant = 1230, diffusivity = 0.000012, molarMass = 64.066\<rparr>"
    using DEFAULT_pollutant_known by simp
  have a: "\<exists>r. calculatePerformance DEFAULT_pollutant DEFAULT_tower 20000 3 1 1 1 1 1 1 300 = Inr r
        \<and> 0 < PerformanceResults.outletConcentration r
        \<and> PerformanceResults.numberOfTransferUnits r = ln 10"
    using C2_ntu_identity [OF k(1), of DEFAULT_tower 20000 3 1 1 1 1 1 1 300]
      calculatePerformance_known [OF DEFAULT_pollutant_known, of DEFAULT_tower 20000 3 1 1 1 1 1 1 300]
    by (auto simp: DEFAULT_pollutant_fields)
  have b: "\<exists>r. calculatePerformance ?p1 DEFAULT_tower 20000 3 1 1 1 1 1 1 300 = Inr r
        \<and> PerformanceResults.outletConcentration r = 0
        \<and> PerformanceResults.numberOfTransferUnits r = 0"
    using C2_ntu_identity [OF k(2), of DEFAULT_tower 20000 3 1 1 1 1 1 1 300]
      calculatePerformance_known [OF k1, of DEFAULT_tower 20000 3 1 1 1 1 1 1 300]
    by (auto simp: DEFAULT_pollutant_fields)
  from k(1) a b show ?thesis by blast
qed

text \<open>
  C5 (height zero-guard). For a pollutant of the table \<open>calculatePerformance\<close> returns, and
  with \<open>V\<close> the spray-zone volume it computes: \<open>V\<close> is \<open>G_m * NTU / KGa\<close> when \<open>KGa\<close> and the
  NTU are both positive and 0 otherwise; the required height is \<open>V / towerArea\<close> when \<open>V\<close>
  and the tower area are both positive and 0 otherwise; so a \<open>KGa\<close> of 0 or an NTU of 0
  gives a required height of 0, as a returned value and not as an error.
\<close>

theorem C5_height_zero_guard:
  assumes "type p \<in> dom POLLUTANT_LIBRARY"
  shows "\<exists>r V. calculatePerformance p tw q v dia rho lr kga area qop temp = Inr r
    \<and> (0 < kga \<and> 0 < PerformanceResults.numberOfTransferUnits r \<longrightarrow>
         V = molarGasFlowOf qop temp * PerformanceResults.numberOfTransferUnits r / kga)
    \<and> (\<not> (0 < kga \<and> 0 < PerformanceResults.numberOfTransferUnits r) \<longrightarrow> V = 0)
    \<and> (0 < V \<and> 0 < area \<longrightarrow> PerformanceResults.requiredHeight r = V / area)
    \<and> (\<not> (0 < V \<and> 0 < area) \<longrightarrow> PerformanceResults.requiredHeight r = 0)
    \<and> (kga = 0 \<or> PerformanceResults.numberOfTransferUnits r = 0 \<longrightarrow>
         PerformanceResults.requiredHeight r = 0)"
proof -
  from assms obtain d where d: "POLLUTANT_LIBRARY (type p) = Some d" by auto
  from calculatePerformance_known [OF d, of tw q v dia rho lr kga area qop temp]
  obtain r where r: "calculatePerformance p tw q v dia rho lr kga area qop temp = Inr r"
    and h: "PerformanceResults.requiredHeight r =
        requiredHeightOf area (sprayZoneVolumeOf (molarGasFlowOf qop temp)
          (PerformanceResults.numberOfTransferUnits r) kga)"
    by auto
  let ?V = "sprayZoneVolumeOf (molarGasFlowOf qop temp)
          (PerformanceResults.numberOfTransferUnits r) kga"
  show ?thesis
    by (rule exI [of _ r], rule exI [of _ ?V])
       (simp add: r h requiredHeightOf_def sprayZoneVolumeOf_def)
qed

theorem C5_height_zero_guard_witness:
  "type DEFAULT_pollutant \<in> dom POLLUTANT_LIBRARY
   \<and> (\<exists>r. calculatePerformance DEFAULT_pollutant DEFAULT_tower 20000 3 1 1 1 (1/2) 2 6 300 = Inr r
        \<and> 0 < PerformanceResults.numberOfTransferUnits r
        \<and> PerformanceResults.requiredHeight r =
            molarGasFlowOf 6 300 * PerformanceResults.numberOfTransferUnits r / (1/2) / 2)
   \<and> (\<exists>r. calculatePerformance DEFAULT_pollutant DEFAULT_tower 20000 3 1 1 1 0 2 6 300 = Inr r
        \<and> PerformanceResults.requiredHeight r = 0)"
proof -
  have k: "type DEFAULT_pollutant \<in> dom POLLUTANT_LIBRARY"
    using DEFAULT_pollutant_known by auto
  have g: "0 < molarGasFlowOf 6 300"
    by (simp add: molarGasFlowOf_def)
  have a: "\<exists>r. calculatePerformance DEFAULT_pollutant DEFAULT_tower 20000 3 1 1 1 (1/2) 2 6 300 = Inr r
        \<and> 0 < PerformanceResults.numberOfTransferUnits r
        \<and> PerformanceResults.requiredHeight r =
            molarGasFlowOf 6 300 * PerformanceResults.numberOfTransferUnits r / (1/2) / 2"
  proof -
    from C5_height_zero_guard [OF k, of DEFAULT_tower 20000 3 1 1 1 "1/2" 2 6 300]
    obtain r V where r: "calculatePerformance DEFAULT_pollutant DEFAULT_tower 20000 3 1 1 1 (1/2) 2 6 300 = Inr r"
      and V: "0 < (1/2::real) \<and> 0 < PerformanceResults.numberOfTransferUnits r \<longrightarrow>
         V = molarGasFlowOf 6 300 * PerformanceResults.numberOfTransferUnits r / (1/2)"
      and H: "0 < V \<and> 0 < (2::real) \<longrightarrow> PerformanceResults.requiredHeight r = V / 2"
      by blast
    from calculatePerformance_known [OF DEFAULT_pollutant_known, of DEFAULT_tower 20000 3 1 1 1 "1/2" 2 6 300] r
    have n: "PerformanceResults.numberOfTransferUnits r = ln 10"
      by (auto simp: DEFAULT_pollutant_fields numberOfTransferUnitsOf_def)
    then have n0: "0 < PerformanceResults.numberOfTransferUnits r" by simp
    with V have V': "V = molarGasFlowOf 6 300 * PerformanceResults.numberOfTransferUnits r / (1/2)"
      by simp
    then have "0 < V" using g n0 by simp
    with H V' have "PerformanceResults.requiredHeight r =
        molarGasFlowOf 6 300 * PerformanceResults.numberOfTransferUnits r / (1/2) / 2"
      by simp
    with r n0 show ?thesis by blast
  qed
  have b: "\<exists>r. calculatePerformance DEFAULT_pollutant DEFAULT_tower 20000 3 1 1 1 0 2 6 300 = Inr r
        \<and> PerformanceResults.requiredHeight r = 0"
    using C5_height_zero_guard [OF k, of DEFAULT_tower 20000 3 1 1 1 0 2 6 300]
    by auto
  from k a b show ?thesis by blast
qed

lemma calculateMassTransfer_known:
  assumes "POLLUTANT_LIBRARY (type p) = Some d"
  shows "\<exists>m. calculateMassTransfer p tw rho mu v flux = Inr m
    \<and> MassTransferResults.overallKGa m = falsy_or (kgaOverride tw) (calculatedKGa rho v flux)"
  by (simp add: calculateMassTransfer_def Let_def POLLUTANT_lookup_Own [OF assms])

lemma calculateSprayTower_known:
  assumes d: "POLLUTANT_LIBRARY (type (pollutant input)) = Some d"
  shows "\<exists>r. calculateSprayTower input = Inr r
    \<and> outletConcentration r =
        inletConcentration (pollutant input) * (1 - targetEfficiency (pollutant input))
    \<and> molesRemoved r =
        Some ((gasFlowRate (gasStream input) *
          (inletConcentration (pollutant input) -
           inletConcentration (pollutant input) * (1 - targetEfficiency (pollutant input))) / 1000)
        / molarMass d * 1000)
    \<and> naohConsumption r =
        map_option (\<lambda>molesRemoved. molesRemoved * naohStoichiometry (tower input))
          (molesRemoved r)
    \<and> complianceStatus r = calculateComplianceStatus
        (regulatoryFramework (settings input))
        (inletConcentration (pollutant input) * (1 - targetEfficiency (pollutant input)))
        (operatingPressure (calculateGasProperties (gasStream input)))
        (type (pollutant input))"
proof -
  let ?gp = "calculateGasProperties (gasStream input)"
  let ?ts = "calculateTowerSizing (GasPropertiesResults.operatingGasFlow ?gp)
               (gasVelocity (tower input)) (lgRatio (tower input))"
  from calculateMassTransfer_known [OF d] obtain m where
    m: "calculateMassTransfer (pollutant input) (tower input)
          (GasPropertiesResults.gasDensity ?gp) (effectiveGasViscosity ?gp)
          (gasVelocity (tower input)) (liquidFlux ?ts) = Inr m"
    by blast
  from calculatePerformance_known [OF d] obtain pf where
    pf: "calculatePerformance (pollutant input) (tower input) (gasFlowRate (gasStream input))
          (gasVelocity (tower input)) (TowerSizingResults.towerDiameter ?ts)
          (GasPropertiesResults.gasDensity ?gp) (TowerSizingResults.liquidRate ?ts)
          (MassTransferResults.overallKGa m) (TowerSizingResults.towerArea ?ts)
          (GasPropertiesResults.operatingGasFlow ?gp) (operatingTemp ?gp) = Inr pf"
    and pfs: "PerformanceResults.outletConcentration pf =
        inletConcentration (pollutant input) * (1 - targetEfficiency (pollutant input))"
      "PerformanceResults.molesRemoved pf =
        Some ((gasFlowRate (gasStream input) *
          (inletConcentration (pollutant input) -
           inletConcentration (pollutant input) * (1 - targetEfficiency (pollutant input))) / 1000)
        / molarMass d * 1000)"
      "PerformanceResults.naohConsumption pf =
         map_option (\<lambda>molesRemoved. molesRemoved * naohStoichiometry (tower input))
           (PerformanceResults.molesRemoved pf)"
    by blast
  show ?thesis
    by (simp add: calculateSprayTower_def Let_def m pf pfs)
qed

text \<open>
  C6 (moles removed), at the default input: 20000 Nm3/h with 1500 - 150 = 1350 mg/Nm3
  removed is 27 kg/h of SO2, that is 27000 / 64.066 (about 421.4) mol/h. The pipeline
  returns a thousand times that, 27000000 / 64.066 (about 421440): its formula divides by
  1000 to go from mg to g and, after dividing by the molar mass, multiplies by 1000 again.
\<close>

theorem C6_moles_removed_thousandfold:
  "map_sum id molesRemoved (calculateSprayTower DEFAULT_VALUES) = Inr (Some (27000000 / 64.066))
   \<and> molesRemoved_mol_per_h 20000 (1500 - 150) 64.066 = 27000 / 64.066
   \<and> map_sum id molesRemoved (calculateSprayTower DEFAULT_VALUES)
       = Inr (Some (1000 * molesRemoved_mol_per_h 20000 (1500 - 150) 64.066))"
proof -
  have d: "POLLUTANT_LIBRARY (type (pollutant DEFAULT_VALUES)) =
     Some \<lparr>henryConstant = 1230, diffusivity = 0.000012, molarMass = 64.066\<rparr>"
    using DEFAULT_pollutant_known by (simp add: DEFAULT_VALUES_def)
  from calculateSprayTower_known [OF d] obtain r where
    r: "calculateSprayTower DEFAULT_VALUES = Inr r"
    and "molesRemoved r =
        Some ((gasFlowRate (gasStream DEFAULT_VALUES) *
          (inletConcentration (pollutant DEFAULT_VALUES) -
           inletConcentration (pollutant DEFAULT_VALUES) *
             (1 - targetEfficiency (pollutant DEFAULT_VALUES))) / 1000)
        / 64.066 * 1000)"
    by auto
  then have "molesRemoved r = Some (27000000 / 64.066)"
    by (simp add: DEFAULT_VALUES_def DEFAULT_gasStream_def DEFAULT_pollutant_def)
  with r show ?thesis
    by (simp add: molesRemoved_mol_per_h_def)
qed

section \<open>Properties of the table lookups\<close>

lemma calculateSprayTower_inherited:
  assumes "objectLookup POLLUTANT_LIBRARY (type (pollutant input)) = Inherited"
  shows "\<exists>r. calculateSprayTower input = Inr r
    \<and> molesRemoved r = None \<and> naohConsumption r = None
    \<and> schmidtNumber r = None \<and> sherwoodNumber r = None"
  by (simp add: calculateSprayTower_def calculateMassTransfer_def calculatePerformance_def
      assms readField_def Let_def)

text \<open>
  C7, as the claim states it, fails for a pollutant type that names a member inherited
  from \<open>Object.prototype\<close>: \<open>constructor\<close> is none of the four keys of the table, the lookup
  finds the inherited member, no field read throws, and the pipeline returns a result
  whose Schmidt number and moles removed are \<open>NaN\<close>.
\<close>

theorem C7_inherited_member_counterexample:
  "''constructor'' \<notin> {''SO2'', ''HCl'', ''NH3'', ''H2S''}
   \<and> calculateSprayTower
        (DEFAULT_VALUES\<lparr>pollutant := DEFAULT_pollutant\<lparr>type := ''constructor''\<rparr>\<rparr>)
       \<noteq> Inl TypeError
   \<and> map_sum id schmidtNumber
        (calculateSprayTower
          (DEFAULT_VALUES\<lparr>pollutant := DEFAULT_pollutant\<lparr>type := ''constructor''\<rparr>\<rparr>))
       = Inr None
   \<and> map_sum id molesRemoved
        (calculateSprayTower
          (DEFAULT_VALUES\<lparr>pollutant := DEFAULT_pollutant\<lparr>type := ''constructor''\<rparr>\<rparr>))
       = Inr None"
proof -
  let ?input = "DEFAULT_VALUES\<lparr>pollutant := DEFAULT_pollutant\<lparr>type := ''constructor''\<rparr>\<rparr>"
  have "objectLookup POLLUTANT_LIBRARY (type (pollutant ?input)) = Inherited"
    using POLLUTANT_lookup_constructor by simp
  from calculateSprayTower_inherited [OF this] obtain r where
    "calculateSprayTower ?input = Inr r" "schmidtNumber r = None" "molesRemoved r = None"
    by blast
  then show ?thesis by simp
qed

text \<open>
  C7 (unknown pollutant, amended). When the pollutant type is none of the four keys of
  \<open>POLLUTANT_LIBRARY\<close> and not the name of a member inherited from \<open>Object.prototype\<close>, so
  that the lookup is \<open>undefined\<close>, the pipeline raises \<open>TypeError\<close>: \<open>calculateMassTransfer\<close>
  raises at its first read of a field of the looked-up entry, and so does
  \<open>calculatePerformance\<close>; no value stands in for the Henry constant, the diffusivity or
  the molar mass.
\<close>

theorem C7_unknown_pollutant_fails:
  assumes "type (pollutant input) \<notin> {''SO2'', ''HCl'', ''NH3'', ''H2S''}"
    and "type (pollutant input) \<notin> set ObjectPrototype"
  shows "calculateSprayTower input = Inl TypeError
    \<and> calculateMassTransfer (pollutant input) tw rho mu v flux = Inl TypeError
    \<and> calculatePerformance (pollutant input) tw q v dia rho lr kga area qop temp = Inl TypeError"
  by (simp add: calculateSprayTower_def calculateMassTransfer_def calculatePerformance_def
      POLLUTANT_lookup_Undefined [OF assms] Let_def)

theorem C7_unknown_pollutant_fails_witness:
  "type (pollutant (DEFAULT_VALUES\<lparr>pollutant := DEFAULT_pollutant\<lparr>type := ''CO2''\<rparr>\<rparr>))
     \<notin> {''SO2'', ''HCl'', ''NH3'', ''H2S''}
   \<and> type (pollutant (DEFAULT_VALUES\<lparr>pollutant := DEFAULT_pollutant\<lparr>type := ''CO2''\<rparr>\<rparr>))
     \<notin> set ObjectPrototype
   \<and> calculateSprayTower (DEFAULT_VALUES\<lparr>pollutant := DEFAULT_pollutant\<lparr>type := ''CO2''\<rparr>\<rparr>)
       = Inl TypeError"
proof -
  let ?input = "DEFAULT_VALUES\<lparr>pollutant := DEFAULT_pollutant\<lparr>type := ''CO2''\<rparr>\<rparr>"
  have h: "type (pollutant ?input) \<notin> {''SO2'', ''HCl'', ''NH3'', ''H2S''}"
    "type (pollutant ?input) \<notin> set ObjectPrototype"
    by (simp_all add: ObjectPrototype_def)
  from C7_unknown_pollutant_fails [OF h] h show ?thesis by blast
qed

text \<open>
  C8, as the claim states it, fails under the US framework: the US table of
  \<open>getEmissionLimits\<close> has a limit of 400 for SO2, an outlet concentration of 500 exceeds
  it, and the compliance evaluator, whose US branch reads no table, still reports the
  limits as met.
\<close>

theorem C8_us_limit_exceeded_counterexample:
  "usLimits ''SO2'' = Some 400 \<and> (400::real) < 500
   \<and> emissionLimitsMet (calculateComplianceStatus US 500 101325 ''SO2'') = True"
  by (simp add: usLimits_def calculateComplianceStatus_def)

text \<open>
  C8 (compliance policy, amended). The compliance evaluator reports the emission limits
  as not met exactly when the framework is EU, the EU table has an entry for the pollutant
  type and the outlet concentration exceeds that entry. With no EU entry for the
  pollutant the limits are reported as met, and under the US framework, where the
  evaluator reads no table, they are always reported as met.
\<close>

theorem C8_compliance_policy:
  "emissionLimitsMet (calculateComplianceStatus fw outlet p ty) =
     (\<not> (fw = EU \<and> (\<exists>limit. euLimits ty = Some limit \<and> limit < outlet)))"
  by (cases fw) (auto simp: calculateComplianceStatus_def euLimits_def split: option.splits)

theorem C8_compliance_policy_witness:
  "emissionLimitsMet (calculateComplianceStatus EU 250 101325 ''SO2'') = False
   \<and> emissionLimitsMet (calculateComplianceStatus EU 150 101325 ''SO2'') = True
   \<and> emissionLimitsMet (calculateComplianceStatus EU 250 101325 ''CO2'') = True
   \<and> emissionLimitsMet (calculateComplianceStatus US 500 101325 ''SO2'') = True"
  using C8_compliance_policy [of EU 250 101325 "''SO2''"]
    C8_compliance_policy [of EU 150 101325 "''SO2''"]
    C8_compliance_policy [of EU 250 101325 "''CO2''"]
    C8_compliance_policy [of US 500 101325 "''SO2''"]
  by (simp add: euLimits_def)

section \<open>Properties of the droplet solver\<close>

lemma dragCoeff_pos:
  fixes re :: real
  assumes "0 < re"
  shows "0 < (if re > 1000 then 0.44 else 24 / re * (1 + 0.15 * (re powr 0.687)))"
proof -
  have "0 \<le> 0.15 * (re powr 0.687)" by simp
  then have "0 < 1 + 0.15 * (re powr 0.687)" by (rule add_pos_nonneg [OF zero_less_one])
  moreover have "0 < 24 / re" using assms by simp
  ultimately have "0 < 24 / re * (1 + 0.15 * (re powr 0.687))"
    by (rule mult_pos_pos [rotated])
  then show ?thesis by simp
qed

lemma newVelocity_pos:
  assumes "0 < d" "0 < rho" "0 < mu" "rho < rhoL" "0 < v"
  shows "0 < newVelocity d rho mu rhoL v"
proof -
  define re where "re = (rho * v * d) / mu"
  define cd where "cd = (if re > 1000 then 0.44 else 24 / re * (1 + 0.15 * (re powr 0.687)))"
  have re: "0 < re" using assms by (simp add: re_def)
  have cd: "0 < cd" unfolding cd_def by (rule dragCoeff_pos [OF re])
  have num: "0 < 4 * 9.80665 * d * (rhoL - rho)" using assms by simp
  have den: "0 < 3 * cd * rho" using cd assms by simp
  have "0 < (4 * 9.80665 * d * (rhoL - rho)) / (3 * cd * rho)"
    using num den by (rule divide_pos_pos)
  then have "0 < sqrt ((4 * 9.80665 * d * (rhoL - rho)) / (3 * cd * rho))"
    by (simp only: real_sqrt_gt_0_iff)
  moreover have "newVelocity d rho mu rhoL v =
      sqrt ((4 * 9.80665 * d * (rhoL - rho)) / (3 * cd * rho))"
    by (simp add: newVelocity_def Let_def cd_def re_def)
  ultimately show ?thesis by simp
qed

lemma newVelocity_funpow_pos:
  assumes "0 < d" "0 < rho" "0 < mu" "rho < rhoL" "0 < v"
  shows "0 < ((newVelocity d rho mu rhoL) ^^ n) v"
  by (induction n) (simp_all add: assms newVelocity_pos)

lemma terminalVelocityLoop_iterates:
  "i \<le> 10 \<Longrightarrow>
   \<exists>j. i + j \<le> 10
     \<and> terminalVelocityLoop d rho mu rhoL i v = ((newVelocity d rho mu rhoL) ^^ j) v
     \<and> (i + j = 10 \<or>
         (0 < j \<and> \<bar>((newVelocity d rho mu rhoL) ^^ j) v
                    - ((newVelocity d rho mu rhoL) ^^ (j - 1)) v\<bar> < 0.001))
     \<and> (\<forall>m. 0 < m \<and> m < j \<longrightarrow>
           \<not> \<bar>((newVelocity d rho mu rhoL) ^^ m) v
               - ((newVelocity d rho mu rhoL) ^^ (m - 1)) v\<bar> < 0.001)"
proof (induction d rho mu rhoL i v rule: terminalVelocityLoop.induct)
  case (1 d rho mu rhoL i v)
  let ?f = "newVelocity d rho mu rhoL"
  show ?case
  proof (cases "i < 10")
    case False
    with "1.prems" have "i = 10" by simp
    then have "terminalVelocityLoop d rho mu rhoL i v = v"
      by (subst terminalVelocityLoop.simps) simp
    with \<open>i = 10\<close> show ?thesis by (intro exI [of _ 0]) simp
  next
    case i: True
    show ?thesis
    proof (cases "\<bar>?f v - v\<bar> < 0.001")
      case True
      with i have "terminalVelocityLoop d rho mu rhoL i v = ?f v"
        by (subst terminalVelocityLoop.simps) (simp add: Let_def)
      with i True show ?thesis by (intro exI [of _ 1]) auto
    next
      case False
      with i have eq: "terminalVelocityLoop d rho mu rhoL i v =
          terminalVelocityLoop d rho mu rhoL (Suc i) (?f v)"
        by (subst terminalVelocityLoop.simps) (simp add: Let_def)
      from "1.IH" [OF i refl False] i obtain j where
        j: "Suc i + j \<le> 10"
          "terminalVelocityLoop d rho mu rhoL (Suc i) (?f v) = (?f ^^ j) (?f v)"
          "Suc i + j = 10 \<or> (0 < j \<and> \<bar>(?f ^^ j) (?f v) - (?f ^^ (j - 1)) (?f v)\<bar> < 0.001)"
          "\<forall>m. 0 < m \<and> m < j \<longrightarrow> \<not> \<bar>(?f ^^ m) (?f v) - (?f ^^ (m - 1)) (?f v)\<bar> < 0.001"
        by auto
      have sw: "(?f ^^ n) (?f v) = (?f ^^ Suc n) v" for n
        by (simp add: funpow_swap1)
      have a: "i + Suc j \<le> 10" using j(1) by simp
      have b: "terminalVelocityLoop d rho mu rhoL i v = (?f ^^ Suc j) v"
        using eq j(2) sw by simp
      have c: "i + Suc j = 10 \<or>
         (0 < Suc j \<and> \<bar>(?f ^^ Suc j) v - (?f ^^ (Suc j - 1)) v\<bar> < 0.001)"
      proof (cases "Suc i + j = 10")
        case True
        then show ?thesis by simp
      next
        case False
        with j(3) have "0 < j" and lt: "\<bar>(?f ^^ j) (?f v) - (?f ^^ (j - 1)) (?f v)\<bar> < 0.001"
          by auto
        from \<open>0 < j\<close> have "Suc (j - 1) = j" by simp
        with lt sw [of j] sw [of "j - 1"] show ?thesis by simp
      qed
      have e: "\<forall>m. 0 < m \<and> m < Suc j \<longrightarrow> \<not> \<bar>(?f ^^ m) v - (?f ^^ (m - 1)) v\<bar> < 0.001"
      proof (intro allI impI)
        fix m assume m: "0 < m \<and> m < Suc j"
        show "\<not> \<bar>(?f ^^ m) v - (?f ^^ (m - 1)) v\<bar> < 0.001"
        proof (cases "m = 1")
          case True
          with False show ?thesis by simp
        next
          case m1: False
          with m have m': "0 < m - 1 \<and> m - 1 < j" by auto
          with j(4) have "\<not> \<bar>(?f ^^ (m - 1)) (?f v) - (?f ^^ (m - 1 - 1)) (?f v)\<bar> < 0.001"
            by blast
          moreover from m' have "Suc (m - 1) = m" "Suc (m - 1 - 1) = m - 1" by arith+
          ultimately show ?thesis using sw [of "m - 1"] sw [of "m - 1 - 1"] by simp
        qed
      qed
      from a b c e show ?thesis by blast
    qed
  qed
qed

text \<open>
  C3 (bounded droplet solver). For a positive droplet size, gas density and gas viscosity
  and a liquid denser than the gas, the terminal velocity that \<open>calculateDropletPhysics\<close>
  reports is the \<open>n\<close>-th iterate of the loop body from the initial guess 1.0 for some \<open>n\<close>
  from 1 to 10: either it differs from the iterate before it by less than 0.001, or \<open>n\<close>
  is 10; no earlier iterate was that close to its predecessor; and the reported velocity
  is positive.
\<close>

theorem C3_droplet_solver_bounded:
  assumes "0 < dsize" and "0 < rho" and "0 < mu" and "rho < rhoL"
  shows "\<exists>n. 1 \<le> n \<and> n \<le> 10
    \<and> terminalVelocity (calculateDropletPhysics dsize v rho mu rhoL h) =
        ((newVelocity (dsize * 0.001) rho mu rhoL) ^^ n) 1
    \<and> (\<bar>((newVelocity (dsize * 0.001) rho mu rhoL) ^^ n) 1
          - ((newVelocity (dsize * 0.001) rho mu rhoL) ^^ (n - 1)) 1\<bar> < 0.001
        \<or> n = 10)
    \<and> (\<forall>m. 1 \<le> m \<and> m < n \<longrightarrow>
          \<not> \<bar>((newVelocity (dsize * 0.001) rho mu rhoL) ^^ m) 1
              - ((newVelocity (dsize * 0.001) rho mu rhoL) ^^ (m - 1)) 1\<bar> < 0.001)
    \<and> 0 < terminalVelocity (calculateDropletPhysics dsize v rho mu rhoL h)"
proof -
  let ?f = "newVelocity (dsize * 0.001) rho mu rhoL"
  have tv: "terminalVelocity (calculateDropletPhysics dsize v rho mu rhoL h) =
      terminalVelocityLoop (dsize * 0.001) rho mu rhoL 0 1"
    by (simp add: calculateDropletPhysics_def Let_def)
  from terminalVelocityLoop_iterates [of 0 "dsize * 0.001" rho mu rhoL 1]
  obtain j where j: "j \<le> 10"
    "terminalVelocityLoop (dsize * 0.001) rho mu rhoL 0 1 = (?f ^^ j) 1"
    "j = 10 \<or> (0 < j \<and> \<bar>(?f ^^ j) 1 - (?f ^^ (j - 1)) 1\<bar> < 0.001)"
    "\<forall>m. 0 < m \<and> m < j \<longrightarrow> \<not> \<bar>(?f ^^ m) 1 - (?f ^^ (m - 1)) 1\<bar> < 0.001"
    by auto
  from j(3) have j1: "1 \<le> j" by auto
  have d: "0 < dsize * 0.001" using assms(1) by simp
  have pos: "0 < (?f ^^ j) 1"
    by (rule newVelocity_funpow_pos [OF d assms(2,3,4)]) simp
  have c: "\<bar>(?f ^^ j) 1 - (?f ^^ (j - 1)) 1\<bar> < 0.001 \<or> j = 10"
    using j(3) by blast
  have e: "\<forall>m. 1 \<le> m \<and> m < j \<longrightarrow> \<not> \<bar>(?f ^^ m) 1 - (?f ^^ (m - 1)) 1\<bar> < 0.001"
  proof (intro allI impI)
    fix m :: nat assume "1 \<le> m \<and> m < j"
    then have "0 < m \<and> m < j" by simp
    with j(4) show "\<not> \<bar>(?f ^^ m) 1 - (?f ^^ (m - 1)) 1\<bar> < 0.001" by blast
  qed
  have "1 \<le> j \<and> j \<le> 10
    \<and> terminalVelocity (calculateDropletPhysics dsize v rho mu rhoL h) = (?f ^^ j) 1
    \<and> (\<bar>(?f ^^ j) 1 - (?f ^^ (j - 1)) 1\<bar> < 0.001 \<or> j = 10)
    \<and> (\<forall>m. 1 \<le> m \<and> m < j \<longrightarrow> \<not> \<bar>(?f ^^ m) 1 - (?f ^^ (m - 1)) 1\<bar> < 0.001)
    \<and> 0 < terminalVelocity (calculateDropletPhysics dsize v rho mu rhoL h)"
    using j1 j(1) j(2) tv c e pos by (simp only: simp_thms)
  then show ?thesis by (rule exI [of _ j])
qed

theorem C3_droplet_solver_bounded_witness:
  "(0::real) < 0.8 \<and> (0::real) < 1.127 \<and> (0::real) < 0.0000185 \<and> (1.127::real) < 1000
   \<and> (\<exists>n. 1 \<le> n \<and> n \<le> 10
        \<and> terminalVelocity (calculateDropletPhysics 0.8 3 1.127 0.0000185 1000 5) =
            ((newVelocity (0.8 * 0.001) 1.127 0.0000185 1000) ^^ n) 1
        \<and> 0 < terminalVelocity (calculateDropletPhysics 0.8 3 1.127 0.0000185 1000 5))"
proof -
  have h: "(0::real) < 0.8" "(0::real) < 1.127" "(0::real) < 0.0000185" "(1.127::real) < 1000"
    by simp_all
  from C3_droplet_solver_bounded [OF h, of 3 5] obtain n where
    "1 \<le> n" "n \<le> 10"
    "terminalVelocity (calculateDropletPhysics 0.8 3 1.127 0.0000185 1000 5) =
       ((newVelocity (0.8 * 0.001) 1.127 0.0000185 1000) ^^ n) 1"
    "0 < terminalVelocity (calculateDropletPhysics 0.8 3 1.127 0.0000185 1000 5)"
    by blast
  then have "\<exists>n. 1 \<le> n \<and> n \<le> 10
        \<and> terminalVelocity (calculateDropletPhysics 0.8 3 1.127 0.0000185 1000 5) =
            ((newVelocity (0.8 * 0.001) 1.127 0.0000185 1000) ^^ n) 1
        \<and> 0 < terminalVelocity (calculateDropletPhysics 0.8 3 1.127 0.0000185 1000 5)"
    by blast
  with h show ?thesis by (simp only: simp_thms)
qed

section \<open>Properties of the optimizer\<close>

lemma euLimits_entry:
  assumes "euLimits ty = Some limit"
  shows "0 < limit" and "ty \<in> dom POLLUTANT_LIBRARY"
  using assms by (auto simp: euLimits_def POLLUTANT_LIBRARY_def split: if_splits)

lemma not_met_iff:
  "(\<not> emissionLimitsMet (calculateComplianceStatus fw outlet p ty)) =
     (fw = EU \<and> (\<exists>limit. euLimits ty = Some limit \<and> limit < outlet))"
  by (cases fw) (auto simp: calculateComplianceStatus_def euLimits_def split: option.splits)

lemma NON_COMPLIANT_fields:
  "type (pollutant NON_COMPLIANT_input) = ''SO2''"
  "inletConcentration (pollutant NON_COMPLIANT_input) = 1500"
  "targetEfficiency (pollutant NON_COMPLIANT_input) = 0.5"
  "regulatoryFramework (settings NON_COMPLIANT_input) = EU"
  by (simp_all add: NON_COMPLIANT_input_def DEFAULT_VALUES_def DEFAULT_pollutant_def
      DEFAULT_settings_def)

lemma NON_COMPLIANT_known:
  "POLLUTANT_LIBRARY (type (pollutant NON_COMPLIANT_input)) =
     Some \<lparr>henryConstant = 1230, diffusivity = 0.000012, molarMass = 64.066\<rparr>"
  by (simp add: NON_COMPLIANT_fields POLLUTANT_LIBRARY_def)

lemma strategy_fields:
  "pollutant (fst (strategy input m req i cur)) =
     (if real i \<le> m * 0.4 then (pollutant cur)\<lparr>targetEfficiency := req\<rparr> else pollutant cur)"
  "settings (fst (strategy input m req i cur)) = settings cur"
  "gasStream (fst (strategy input m req i cur)) = gasStream cur"
  by (simp_all add: strategy_def Let_def)














section \<open>Properties of the optimizer in double arithmetic\<close>

subsection \<open>Rounding to binary64\<close>

text \<open>
  A rounding has a relative error of at most \<open>2 ^ -53\<close> (\<open>roundToDouble_error\<close>), and it
  is evaluated by giving the exponent and the significand of its result
  (\<open>roundToDouble_eq\<close>).
\<close>

lemma pow2_powr: "pow2 e = 2 powr (of_int e)"
  by (simp add: pow2_def powr_int)

lemma pow2_pos: "0 < pow2 e"
  by (simp add: pow2_powr)

lemma pow2_add: "pow2 (a + b) = pow2 a * pow2 b"
  by (simp add: pow2_powr powr_add)

lemma binade_bounds:
  assumes "x \<noteq> 0"
  shows "pow2 (binade x) \<le> \<bar>x\<bar>" and "\<bar>x\<bar> < pow2 (binade x + 1)"
proof -
  from assms have pos: "0 < \<bar>x\<bar>" by simp
  have "of_int (binade x) \<le> log 2 \<bar>x\<bar>"
    by (simp add: binade_def)
  then show "pow2 (binade x) \<le> \<bar>x\<bar>"
    using pos by (simp add: pow2_powr le_log_iff)
  have "log 2 \<bar>x\<bar> < of_int (binade x + 1)"
    by (simp add: binade_def)
  then show "\<bar>x\<bar> < pow2 (binade x + 1)"
    using pos unfolding pow2_powr by (subst (asm) log_less_iff) simp_all
qed

lemma binade_eq:
  assumes "pow2 e \<le> \<bar>x\<bar>" and "\<bar>x\<bar> < pow2 (e + 1)"
  shows "binade x = e"
proof -
  from assms(1) pow2_pos [of e] have pos: "0 < \<bar>x\<bar>" by linarith
  have "of_int e \<le> log 2 \<bar>x\<bar>"
    using assms(1) pos by (simp add: pow2_powr le_log_iff)
  moreover have "log 2 \<bar>x\<bar> < of_int e + 1"
    using assms(2) pos unfolding pow2_powr by (subst log_less_iff) simp_all
  ultimately show ?thesis
    unfolding binade_def by (intro floor_unique) simp_all
qed

lemma roundHalfEven_error: "\<bar>of_int (roundHalfEven y) - y\<bar> \<le> 1 / 2"
proof -
  have "of_int \<lfloor>y\<rfloor> \<le> y" "y < of_int \<lfloor>y\<rfloor> + 1" by linarith+
  then show ?thesis
    by (auto simp: roundHalfEven_def Let_def)
qed

lemma roundHalfEven_eq:
  assumes "\<bar>y - of_int m\<bar> < 1 / 2"
  shows "roundHalfEven y = m"
proof -
  from assms have b: "of_int m - 1 / 2 < y" "y < of_int m + 1 / 2" by linarith+
  then have "\<lfloor>y\<rfloor> = m \<or> \<lfloor>y\<rfloor> = m - 1" by linarith
  then show ?thesis
  proof
    assume f: "\<lfloor>y\<rfloor> = m"
    from b(2) have "y - of_int m < 1 / 2" by linarith
    with f show ?thesis by (simp add: roundHalfEven_def Let_def)
  next
    assume f: "\<lfloor>y\<rfloor> = m - 1"
    from b(1) have "1 / 2 < y - of_int (m - 1)" by simp
    then have "\<not> y - of_int (m - 1) < 1 / 2" by linarith
    with f \<open>1 / 2 < y - of_int (m - 1)\<close> show ?thesis
      by (simp add: roundHalfEven_def Let_def)
  qed
qed

lemma roundToDouble_error: "\<bar>roundToDouble x - x\<bar> \<le> \<bar>x\<bar> / 2 ^ 53"
proof (cases "x = 0")
  case True
  then show ?thesis by (simp add: roundToDouble_def)
next
  case False
  define q where "q = pow2 (binade x - 52)"
  have q: "0 < q" by (simp add: q_def pow2_pos)
  have "pow2 (binade x) = q * 2 ^ 52"
    using pow2_add [of "binade x - 52" 52] by (simp add: q_def pow2_def)
  with binade_bounds(1) [OF False] have lo: "q * 2 ^ 52 \<le> \<bar>x\<bar>" by simp
  have "roundToDouble x - x = (of_int (roundHalfEven (x / q)) - x / q) * q"
    using False q by (simp add: roundToDouble_def q_def algebra_simps)
  then have "\<bar>roundToDouble x - x\<bar> = \<bar>of_int (roundHalfEven (x / q)) - x / q\<bar> * q"
    using q by (simp add: abs_mult)
  also have "\<dots> \<le> 1 / 2 * q"
    using roundHalfEven_error [of "x / q"] q by (intro mult_right_mono) simp_all
  also have "\<dots> = (q * 2 ^ 52) / 2 ^ 53" by simp
  also have "\<dots> \<le> \<bar>x\<bar> / 2 ^ 53"
    using lo by (intro divide_right_mono) simp_all
  finally show ?thesis .
qed

lemma roundToDouble_eq:
  assumes "pow2 e \<le> \<bar>x\<bar>" and "\<bar>x\<bar> < pow2 (e + 1)"
    and "\<bar>x / pow2 (e - 52) - of_int m\<bar> < 1 / 2"
  shows "roundToDouble x = of_int m * pow2 (e - 52)"
proof -
  from assms(1) pow2_pos [of e] have "x \<noteq> 0" by auto
  moreover have "binade x = e" by (rule binade_eq [OF assms(1,2)])
  ultimately show ?thesis
    using roundHalfEven_eq [OF assms(3)] by (simp add: roundToDouble_def)
qed

lemma roundToDouble_nonneg:
  assumes "0 \<le> x"
  shows "0 \<le> roundToDouble x"
proof -
  from roundToDouble_error [of x] assms have "\<bar>roundToDouble x - x\<bar> \<le> x / 2 ^ 53"
    by simp
  moreover have "x / 2 ^ 53 \<le> x" using assms by (simp add: field_simps)
  ultimately show ?thesis by linarith
qed

text \<open>
  The outlet concentration that \<open>calculatePerformance\<close> computes from the required
  efficiency of a limit \<open>L\<close> and an inlet concentration \<open>c\<close>: the six roundings move it
  from \<open>0.9 * L\<close> by at most \<open>c / 2 ^ 50\<close>, which leaves it under the limit as long as
  \<open>c\<close> is at most \<open>1e14\<close> times the limit.
\<close>

lemma outlet_double_bound:
  fixes L c :: real
  assumes L: "0 < L" and Lc: "L \<le> c" and cL: "c \<le> 10 ^ 14 * L"
  shows "\<bar>outletConcentration_double c
            (requiredEfficiency_double (targetOutletConcentration_double L) c) - 0.9 * L\<bar>
         \<le> c / 2 ^ 50"
    and "outletConcentration_double c
            (requiredEfficiency_double (targetOutletConcentration_double L) c) \<le> L"
proof -
  define u :: real where "u = 1 / 2 ^ 53"
  define a where "a = roundToDouble 0.9"
  define T where "T = roundToDouble (L * a)"
  define x where "x = roundToDouble (T / c)"
  define y where "y = roundToDouble (1 - x)"
  define z where "z = roundToDouble (1 - y)"
  define out where "out = roundToDouble (c * z)"
  have err: "\<bar>roundToDouble t - t\<bar> \<le> \<bar>t\<bar> * u" for t
    using roundToDouble_error [of t] by (simp add: u_def)
  have u: "0 < u" "u \<le> 1 / 1000" by (simp_all add: u_def)
  have c: "0 < c" using L Lc by linarith
  have e1: "\<bar>a - (9 / 10)\<bar> \<le> (9 / 10) * u"
    using err [of "0.9"] by (simp add: a_def)
  have a: "0 \<le> a" "a \<le> (91 / 100)" using e1 u by linarith+
  have La: "0 \<le> L * a" "L * a \<le> (91 / 100) * L"
    using a L by (simp_all add: mult_left_mono)
  have e2: "\<bar>T - L * a\<bar> \<le> (91 / 100) * L * u"
  proof -
    have "\<bar>T - L * a\<bar> \<le> \<bar>L * a\<bar> * u" unfolding T_def by (rule err)
    also have "\<dots> \<le> ((91 / 100) * L) * u"
      using La u by (intro mult_right_mono) simp_all
    finally show ?thesis by simp
  qed
  have Lu: "L * u \<le> L / 1000" using u L by (simp add: field_simps)
  have T0: "0 \<le> T"
    using La(1) unfolding T_def by (rule roundToDouble_nonneg)
  have "(91 / 100) * L * u = (91 / 100) * (L * u)" by simp
  with e2 La Lu L have T1: "T \<le> (92 / 100) * L" by linarith
  note T = T0 T1
  have q: "0 \<le> T / c" "T / c \<le> (92 / 100)"
    using T c Lc L by (simp_all add: field_simps)
  have e3: "\<bar>x - T / c\<bar> \<le> (T / c) * u"
  proof -
    have "\<bar>x - T / c\<bar> \<le> \<bar>T / c\<bar> * u" unfolding x_def by (rule err)
    also have "\<bar>T / c\<bar> * u = (T / c) * u" using q(1) by (simp only: abs_of_nonneg)
    finally show ?thesis .
  qed
  have ce3: "c * \<bar>x - T / c\<bar> \<le> (92 / 100) * L * u"
  proof -
    have "c * \<bar>x - T / c\<bar> \<le> c * ((T / c) * u)"
      using e3 c by (intro mult_left_mono) simp_all
    also have "\<dots> = T * u" using c by simp
    also have "\<dots> \<le> ((92 / 100) * L) * u"
      using T u by (intro mult_right_mono) simp_all
    finally show ?thesis by simp
  qed
  have qu: "(T / c) * u \<le> (92 / 100) * u"
    using q u by (intro mult_right_mono) simp_all
  have x0: "0 \<le> x"
    using q(1) unfolding x_def by (rule roundToDouble_nonneg)
  from e3 qu q u have x1: "x \<le> (93 / 100)" by linarith
  note x = x0 x1
  have e4: "\<bar>y - (1 - x)\<bar> \<le> u"
  proof -
    have "\<bar>y - (1 - x)\<bar> \<le> \<bar>1 - x\<bar> * u" unfolding y_def by (rule err)
    also have "\<dots> \<le> 1 * u"
      using x u by (intro mult_right_mono) simp_all
    finally show ?thesis by simp
  qed
  have y0: "0 \<le> y"
    unfolding y_def using x by (intro roundToDouble_nonneg) simp
  from x e4 have y1: "y \<le> 1 + u" by linarith
  note y = y0 y1
  have e5: "\<bar>z - (1 - y)\<bar> \<le> u"
  proof -
    have "\<bar>z - (1 - y)\<bar> \<le> \<bar>1 - y\<bar> * u" unfolding z_def by (rule err)
    also have "\<dots> \<le> 1 * u"
    proof (rule mult_right_mono)
      from y u show "\<bar>1 - y\<bar> \<le> 1" by linarith
      from u show "0 \<le> u" by simp
    qed
    finally show ?thesis by simp
  qed
  have z: "\<bar>z\<bar> \<le> 2" using e5 y u by linarith
  have e6: "\<bar>out - c * z\<bar> \<le> 2 * c * u"
  proof -
    have "\<bar>out - c * z\<bar> \<le> \<bar>c * z\<bar> * u" unfolding out_def by (rule err)
    also have "\<dots> = (c * \<bar>z\<bar>) * u" using c by (simp add: abs_mult)
    also have "\<dots> \<le> (c * 2) * u"
      using z c u by (intro mult_right_mono mult_left_mono) simp_all
    finally show ?thesis by simp
  qed
  have ce5: "c * \<bar>z - (1 - y)\<bar> \<le> c * u"
    using e5 c by (intro mult_left_mono) simp_all
  have ce4: "c * \<bar>y - (1 - x)\<bar> \<le> c * u"
    using e4 c by (intro mult_left_mono) simp_all
  have Le1: "L * \<bar>a - (9 / 10)\<bar> \<le> (9 / 10) * L * u"
  proof -
    have "L * \<bar>a - (9 / 10)\<bar> \<le> L * ((9 / 10) * u)"
      using e1 L by (intro mult_left_mono) simp_all
    then show ?thesis by simp
  qed
  have split: "out - (9 / 10) * L =
      (out - c * z) + c * (z - (1 - y)) - c * (y - (1 - x)) + c * (x - T / c)
      + (T - L * a) + L * (a - (9 / 10))"
    using c by (simp add: field_simps)
  have triangle: "\<bar>p1 + p2 - p3 + p4 + p5 + p6\<bar> \<le> \<bar>p1\<bar> + \<bar>p2\<bar> + \<bar>p3\<bar> + \<bar>p4\<bar> + \<bar>p5\<bar> + \<bar>p6\<bar>"
    for p1 p2 p3 p4 p5 p6 :: real
    by linarith
  have "\<bar>out - (9 / 10) * L\<bar> \<le>
      \<bar>out - c * z\<bar> + \<bar>c * (z - (1 - y))\<bar> + \<bar>c * (y - (1 - x))\<bar> + \<bar>c * (x - T / c)\<bar>
      + \<bar>T - L * a\<bar> + \<bar>L * (a - 9 / 10)\<bar>"
    unfolding split by (rule triangle)
  also have "\<dots> =
      \<bar>out - c * z\<bar> + c * \<bar>z - (1 - y)\<bar> + c * \<bar>y - (1 - x)\<bar> + c * \<bar>x - T / c\<bar>
      + \<bar>T - L * a\<bar> + L * \<bar>a - 9 / 10\<bar>"
    using c L by (simp only: abs_mult abs_of_pos)
  also have "\<dots> \<le> 2 * c * u + c * u + c * u + (92 / 100) * L * u + (91 / 100) * L * u + (9 / 10) * L * u"
    using e6 ce5 ce4 ce3 e2 Le1 by linarith
  also have "\<dots> = 4 * (c * u) + (273 / 100) * (L * u)" by (simp add: algebra_simps)
  also have "\<dots> \<le> 4 * (c * u) + (273 / 100) * (c * u)"
    using Lc u by (simp add: mult_right_mono)
  also have "\<dots> \<le> 8 * (c * u)"
    using c u by simp
  also have "\<dots> = c / 2 ^ 50" by (simp add: u_def)
  finally have bound: "\<bar>out - (9 / 10) * L\<bar> \<le> c / 2 ^ 50" .
  have out: "outletConcentration_double c
            (requiredEfficiency_double (targetOutletConcentration_double L) c) = out"
    by (simp add: outletConcentration_double_def requiredEfficiency_double_def
        targetOutletConcentration_double_def out_def z_def y_def x_def T_def a_def)
  show "\<bar>outletConcentration_double c
            (requiredEfficiency_double (targetOutletConcentration_double L) c) - 0.9 * L\<bar>
         \<le> c / 2 ^ 50"
    unfolding out using bound by simp
  have "c / 2 ^ 50 \<le> (10 ^ 14 * L) / 2 ^ 50"
    using cL by (intro divide_right_mono) simp_all
  also have "\<dots> \<le> (1 / 10) * L" using L by simp
  finally have "c / 2 ^ 50 \<le> (1 / 10) * L" .
  with bound have "out \<le> L" by linarith
  then show "outletConcentration_double c
            (requiredEfficiency_double (targetOutletConcentration_double L) c) \<le> L"
    unfolding out .
qed

subsection \<open>The pipeline in double arithmetic\<close>

lemma calculateSprayTower_double_known:
  assumes d: "POLLUTANT_LIBRARY (type (pollutant input)) = Some d"
  shows "\<exists>r. calculateSprayTower_double input = Inr r
    \<and> outletConcentration r = outletConcentration_double
        (inletConcentration (pollutant input)) (targetEfficiency (pollutant input))
    \<and> complianceStatus r = calculateComplianceStatus
        (regulatoryFramework (settings input))
        (outletConcentration_double
          (inletConcentration (pollutant input)) (targetEfficiency (pollutant input)))
        (operatingPressure (calculateGasProperties (gasStream input)))
        (type (pollutant input))"
proof -
  from calculateSprayTower_known [OF d] obtain r where
    "calculateSprayTower input = Inr r" by blast
  then show ?thesis
    by (simp add: calculateSprayTower_double_def Let_def)
qed

lemma euLimits_ge_1:
  assumes "euLimits ty = Some limit"
  shows "1 \<le> limit"
  using assms by (auto simp: euLimits_def split: if_splits)

subsection \<open>The rounding steps of the two scenarios\<close>

lemma double_0_9: "roundToDouble 0.9 = 8106479329266893 / 2 ^ 53"
  using roundToDouble_eq [of "-1" "0.9" 8106479329266893]
  by (simp add: pow2_def)

lemma double_target_200: "targetOutletConcentration_double 200 = 180"
proof -
  have "roundToDouble (200 * (8106479329266893 / 2 ^ 53)) = of_int 6333186975989760 * pow2 (7 - 52)"
    by (rule roundToDouble_eq) (simp_all add: pow2_def)
  also have "\<dots> = 180"
    by (simp add: pow2_def)
  finally show ?thesis
    unfolding targetOutletConcentration_double_def double_0_9 .
qed

lemma double_required: "requiredEfficiency_double 180 (10 ^ 18) = 1 - 1 / 2 ^ 52"
proof -
  have "roundToDouble (180 / 10 ^ 18) = of_int 7301667457314601 * pow2 (- 53 - 52)"
    by (rule roundToDouble_eq) (simp_all add: pow2_def)
  also have "\<dots> = 7301667457314601 / 2 ^ 105"
    by (simp add: pow2_def)
  finally have quotient: "roundToDouble (180 / 10 ^ 18) = 7301667457314601 / 2 ^ 105" .
  have "roundToDouble (1 - 7301667457314601 / 2 ^ 105) = of_int 9007199254740990 * pow2 (- 1 - 52)"
    by (rule roundToDouble_eq) (simp_all add: pow2_def)
  also have "\<dots> = 1 - 1 / 2 ^ 52"
    by (simp add: pow2_def)
  finally show ?thesis
    unfolding requiredEfficiency_double_def quotient .
qed

lemma double_outlet: "outletConcentration_double (10 ^ 18) (1 - 1 / 2 ^ 52) = 10 ^ 18 / 2 ^ 52"
proof -
  have "roundToDouble (1 - (1 - 1 / 2 ^ 52)) = of_int 4503599627370496 * pow2 (- 52 - 52)"
    by (rule roundToDouble_eq) (simp_all add: pow2_def)
  also have "\<dots> = 1 / 2 ^ 52"
    by (simp add: pow2_def)
  finally have complement: "roundToDouble (1 - (1 - 1 / 2 ^ 52)) = 1 / 2 ^ 52" .
  have "roundToDouble (10 ^ 18 * (1 / 2 ^ 52)) = of_int 7812500000000000 * pow2 (7 - 52)"
    by (rule roundToDouble_eq) (simp_all add: pow2_def)
  also have "\<dots> = 10 ^ 18 / 2 ^ 52"
    by (simp add: pow2_def)
  finally show ?thesis
    unfolding outletConcentration_double_def complement .
qed

lemma double_outlet_750: "outletConcentration_double 1500 0.5 = 750"
proof -
  have "roundToDouble (1 - 0.5) = of_int 4503599627370496 * pow2 (- 1 - 52)"
    by (rule roundToDouble_eq) (simp_all add: pow2_def)
  also have "\<dots> = 1 / 2"
    by (simp add: pow2_def)
  finally have half: "roundToDouble (1 - 0.5) = 1 / 2" .
  have "roundToDouble (1500 * (1 / 2)) = of_int 6597069766656000 * pow2 (9 - 52)"
    by (rule roundToDouble_eq) (simp_all add: pow2_def)
  also have "\<dots> = 750"
    by (simp add: pow2_def)
  finally show ?thesis
    unfolding outletConcentration_double_def half .
qed

lemma NON_COMPLIANT_initial_double:
  "\<exists>r0. calculateSprayTower_double NON_COMPLIANT_input = Inr r0
     \<and> \<not> emissionLimitsMet (complianceStatus r0)"
proof -
  from calculateSprayTower_double_known [OF NON_COMPLIANT_known] obtain r0 where
    r0: "calculateSprayTower_double NON_COMPLIANT_input = Inr r0"
    and c0: "complianceStatus r0 = calculateComplianceStatus EU
        (outletConcentration_double 1500 0.5)
        (operatingPressure (calculateGasProperties (gasStream NON_COMPLIANT_input))) ''SO2''"
    by (auto simp: NON_COMPLIANT_fields)
  have "\<not> emissionLimitsMet (complianceStatus r0)"
    unfolding c0 not_met_iff double_outlet_750 by (simp add: euLimits_def)
  with r0 show ?thesis by blast
qed

lemma HIGH_INLET_fields:
  "type (pollutant HIGH_INLET_input) = ''SO2''"
  "inletConcentration (pollutant HIGH_INLET_input) = 10 ^ 18"
  "targetEfficiency (pollutant HIGH_INLET_input) = 0.5"
  "regulatoryFramework (settings HIGH_INLET_input) = EU"
  by (simp_all add: HIGH_INLET_input_def DEFAULT_VALUES_def DEFAULT_pollutant_def
      DEFAULT_settings_def)

lemma double_initial_high: "outletConcentration_double (10 ^ 18) 0.5 = 5 * 10 ^ 17"
proof -
  have "roundToDouble (1 - 0.5) = of_int 4503599627370496 * pow2 (- 1 - 52)"
    by (rule roundToDouble_eq) (simp_all add: pow2_def)
  also have "\<dots> = 1 / 2"
    by (simp add: pow2_def)
  finally have half: "roundToDouble (1 - 0.5) = 1 / 2" .
  have "roundToDouble (10 ^ 18 * (1 / 2)) = of_int 7812500000000000 * pow2 (58 - 52)"
    by (rule roundToDouble_eq) (simp_all add: pow2_def)
  also have "\<dots> = 5 * 10 ^ 17"
    by (simp add: pow2_def)
  finally show ?thesis
    unfolding outletConcentration_double_def half .
qed

lemma double_outlet_high:
  "outletConcentration_double (10 ^ 18)
     (requiredEfficiency_double (targetOutletConcentration_double 200) (10 ^ 18))
   = 10 ^ 18 / 2 ^ 52"
  unfolding double_target_200 double_required double_outlet ..

lemma useBestResult_fields:
  "OptimizerState.iterations (useBestResult m l s) = OptimizerState.iterations s"
  "OptimizerState.convergenceReached (useBestResult m l s) = OptimizerState.convergenceReached s"
  by (simp_all add: useBestResult_def split: option.splits)

text \<open>
  An iteration that neither complies nor stops at the divergence check goes on with the
  next one; in the scenario with the high inlet concentration every iteration is such.
\<close>

lemma loop_double_not_converged:
  assumes le: "real (OptimizerState.iterations s) \<le> m"
    and ev: "calculateSprayTower_double
          (fst (strategy input m req (OptimizerState.iterations s) (currentInput s))) = Inr res"
    and nm: "\<not> emissionLimitsMet (complianceStatus res)"
    and nd: "\<not> outletConcentration res > target * 2"
  shows "\<exists>s2. OptimizerState.iterations s2 = Suc (OptimizerState.iterations s)
    \<and> OptimizerState.convergenceReached s2 = OptimizerState.convergenceReached s
    \<and> currentInput s2 =
        fst (strategy input m req (OptimizerState.iterations s) (currentInput s))
    \<and> optimizationLoop_double input m req target s =
        optimizationLoop_double input m req target s2"
proof -
  define cur where
    "cur = fst (strategy input m req (OptimizerState.iterations s) (currentInput s))"
  define s1 where "s1 = s\<lparr>currentInput := cur, OptimizerState.results := res,
      logLines := logLines s @
        [snd (strategy input m req (OptimizerState.iterations s) (currentInput s)),
         LogResult (outletConcentration res) (requiredHeight res)
           (emissionLimitsMet (complianceStatus res))]\<rparr>"
  define better where "better = (case bestResults s1 of None \<Rightarrow> True
      | Some best \<Rightarrow> outletConcentration res < outletConcentration best)"
  define s2 where
    "s2 = (if better then s1\<lparr>bestResults := Some res, bestInput := Some cur\<rparr> else s1)
           \<lparr>OptimizerState.iterations := Suc (OptimizerState.iterations s)\<rparr>"
  have loop: "optimizationLoop_double input m req target s =
        optimizationLoop_double input m req target s2"
    using le ev nm nd
    by (subst optimizationLoop_double.simps)
       (simp add: Let_def s2_def better_def s1_def cur_def)
  have f: "OptimizerState.iterations s2 = Suc (OptimizerState.iterations s)"
    "OptimizerState.convergenceReached s2 = OptimizerState.convergenceReached s"
    "currentInput s2 = cur"
    by (simp_all add: s2_def s1_def)
  from f loop show ?thesis
    unfolding cur_def by (intro exI [of _ s2]) (simp only: simp_thms)
qed

lemma HIGH_INLET_loop:
  assumes "OptimizerState.iterations s \<le> 21"
    and "settings (currentInput s) = settings HIGH_INLET_input"
    and "type (pollutant (currentInput s)) = ''SO2''"
    and "inletConcentration (pollutant (currentInput s)) = 10 ^ 18"
    and "OptimizerState.iterations s \<le> 8
         \<or> targetEfficiency (pollutant (currentInput s)) = 1 - 1 / 2 ^ 52"
    and "\<not> OptimizerState.convergenceReached s"
  shows "\<exists>s'. optimizationLoop_double HIGH_INLET_input 20 (1 - 1 / 2 ^ 52) 180 s = Inr s'
    \<and> OptimizerState.iterations s' = 21
    \<and> \<not> OptimizerState.convergenceReached s'"
  using assms
proof (induction "21 - OptimizerState.iterations s" arbitrary: s)
  case 0
  then have i: "OptimizerState.iterations s = 21" by simp
  then have "optimizationLoop_double HIGH_INLET_input 20 (1 - 1 / 2 ^ 52) 180 s = Inr s"
    by (subst optimizationLoop_double.simps) simp
  with i 0 show ?case by simp
next
  case (Suc n)
  let ?i = "OptimizerState.iterations s"
  let ?req = "1 - 1 / 2 ^ 52 :: real"
  define cur where "cur = fst (strategy HIGH_INLET_input 20 ?req ?i (currentInput s))"
  from Suc.hyps(2) have le: "real ?i \<le> 20" by simp
  have eight: "(real ?i \<le> 20 * 0.4) = (?i \<le> 8)" by auto
  have ty: "type (pollutant cur) = ''SO2''"
    and inl: "inletConcentration (pollutant cur) = 10 ^ 18"
    and eff: "targetEfficiency (pollutant cur) = ?req"
    and st: "settings cur = settings HIGH_INLET_input"
    using Suc.prems by (auto simp: cur_def strategy_fields eight)
  have "POLLUTANT_LIBRARY (type (pollutant cur)) =
      Some \<lparr>henryConstant = 1230, diffusivity = 0.000012, molarMass = 64.066\<rparr>"
    by (simp add: ty POLLUTANT_LIBRARY_def)
  from calculateSprayTower_double_known [OF this] obtain res where
    res: "calculateSprayTower_double cur = Inr res"
    and ores: "outletConcentration res = outletConcentration_double (10 ^ 18) ?req"
    and cres: "complianceStatus res = calculateComplianceStatus EU
        (outletConcentration_double (10 ^ 18) ?req)
        (operatingPressure (calculateGasProperties (gasStream cur))) ''SO2''"
    by (auto simp: ty inl eff st HIGH_INLET_fields)
  have nm: "\<not> emissionLimitsMet (complianceStatus res)"
    unfolding cres not_met_iff double_outlet by (simp add: euLimits_def)
  have nd: "\<not> outletConcentration res > 180 * 2"
    unfolding ores double_outlet by simp
  from loop_double_not_converged [OF le res [unfolded cur_def] nm nd] obtain s2 where
    s2: "OptimizerState.iterations s2 = Suc ?i"
      "OptimizerState.convergenceReached s2 = OptimizerState.convergenceReached s"
      "currentInput s2 = cur"
    and loop: "optimizationLoop_double HIGH_INLET_input 20 ?req 180 s =
      optimizationLoop_double HIGH_INLET_input 20 ?req 180 s2"
    unfolding cur_def by blast
  have "\<exists>s'. optimizationLoop_double HIGH_INLET_input 20 ?req 180 s2 = Inr s'
    \<and> OptimizerState.iterations s' = 21
    \<and> \<not> OptimizerState.convergenceReached s'"
  proof (rule Suc.hyps(1))
    show "n = 21 - OptimizerState.iterations s2" using Suc.hyps(2) s2(1) by simp
    show "OptimizerState.iterations s2 \<le> 21" using Suc.hyps(2) s2(1) by simp
    show "settings (currentInput s2) = settings HIGH_INLET_input" by (simp add: s2 st)
    show "type (pollutant (currentInput s2)) = ''SO2''" by (simp add: s2 ty)
    show "inletConcentration (pollutant (currentInput s2)) = 10 ^ 18" by (simp add: s2 inl)
    show "OptimizerState.iterations s2 \<le> 8
         \<or> targetEfficiency (pollutant (currentInput s2)) = 1 - 1 / 2 ^ 52"
      by (simp add: s2 eff)
    show "\<not> OptimizerState.convergenceReached s2" using Suc.prems by (simp add: s2)
  qed
  with loop show ?case by simp
qed

subsection \<open>One iteration\<close>

text \<open>
  C9, counterexample. For the EU framework, SO2 (limit 200 mg/Nm3), a target efficiency
  of 0.5 and an inlet concentration of \<open>1e18\<close> mg/Nm3 the initial evaluation does not
  comply. The required efficiency is \<open>1 - 2 ^ -52\<close>, the outlet concentration of the
  re-evaluation is \<open>1e18 / 2 ^ 52\<close>, about 222 mg/Nm3 and not 90% of the limit, which is
  above the limit: iteration 1 does not comply and neither does any later one, the loop
  runs through its 20 iterations and \<open>optimizeForCompliance\<close> returns with
  \<open>convergenceReached\<close> false and \<open>iterations\<close> 21.
\<close>

theorem C9_double_rounding_counterexample:
  "regulatoryFramework (settings HIGH_INLET_input) = EU
   \<and> euLimits (type (pollutant HIGH_INLET_input)) = Some 200
   \<and> map_sum id (emissionLimitsMet \<circ> complianceStatus)
       (calculateSprayTower_double HIGH_INLET_input) = Inr False
   \<and> outletConcentration_double (10 ^ 18)
       (requiredEfficiency_double (targetOutletConcentration_double 200) (10 ^ 18))
      = 10 ^ 18 / 2 ^ 52
   \<and> (200 :: real) < 10 ^ 18 / 2 ^ 52
   \<and> map_sum id convergenceReached (optimizeForCompliance_double HIGH_INLET_input 20) = Inr False
   \<and> map_sum id iterations (optimizeForCompliance_double HIGH_INLET_input 20) = Inr 21"
proof -
  have fw: "regulatoryFramework (settings HIGH_INLET_input) = EU"
    by (rule HIGH_INLET_fields)
  have lim: "euLimits (type (pollutant HIGH_INLET_input)) = Some 200"
    by (simp add: HIGH_INLET_fields euLimits_def)
  have "POLLUTANT_LIBRARY (type (pollutant HIGH_INLET_input)) =
      Some \<lparr>henryConstant = 1230, diffusivity = 0.000012, molarMass = 64.066\<rparr>"
    by (simp add: HIGH_INLET_fields POLLUTANT_LIBRARY_def)
  from calculateSprayTower_double_known [OF this] obtain r0 where
    r0: "calculateSprayTower_double HIGH_INLET_input = Inr r0"
    and c0: "complianceStatus r0 = calculateComplianceStatus EU
        (outletConcentration_double (10 ^ 18) 0.5)
        (operatingPressure (calculateGasProperties (gasStream HIGH_INLET_input))) ''SO2''"
    by (auto simp: HIGH_INLET_fields)
  have nc: "\<not> emissionLimitsMet (complianceStatus r0)"
    unfolding c0 not_met_iff double_initial_high by (simp add: euLimits_def)
  define limit where "limit = getEmissionLimits (regulatoryFramework (settings HIGH_INLET_input))
      (type (pollutant HIGH_INLET_input))"
  define target where "target = targetOutletConcentration_double limit"
  define req where
    "req = requiredEfficiency_double target (inletConcentration (pollutant HIGH_INLET_input))"
  have limit: "limit = 200"
    by (simp add: limit_def getEmissionLimits_def fw lim falsy_or_def)
  have target: "target = 180"
    unfolding target_def limit by (rule double_target_200)
  have req: "req = 1 - 1 / 2 ^ 52"
    unfolding req_def target HIGH_INLET_fields by (rule double_required)
  define s0 where "s0 = \<lparr>currentInput = HIGH_INLET_input, OptimizerState.results = r0,
      bestResults = None, bestInput = None, OptimizerState.iterations = 1,
      OptimizerState.convergenceReached = False,
      logLines = [LogStart (regulatoryFramework (settings HIGH_INLET_input)),
                  LogTarget (type (pollutant HIGH_INLET_input))
                    (targetEfficiency (pollutant HIGH_INLET_input)),
                  LogInitial (outletConcentration r0)
                    (emissionLimitsMet (complianceStatus r0)),
                  LogLimit limit target, LogRequiredEfficiency req]\<rparr>"
  have "\<exists>s'. optimizationLoop_double HIGH_INLET_input 20 (1 - 1 / 2 ^ 52) 180 s0 = Inr s'
    \<and> OptimizerState.iterations s' = 21
    \<and> \<not> OptimizerState.convergenceReached s'"
    by (rule HIGH_INLET_loop) (simp_all add: s0_def HIGH_INLET_fields)
  then obtain s' where
    loop: "optimizationLoop_double HIGH_INLET_input 20 req target s0 = Inr s'"
    and s': "OptimizerState.iterations s' = 21" "\<not> OptimizerState.convergenceReached s'"
    unfolding req target by blast
  have opt: "optimizeForCompliance_double HIGH_INLET_input 20 =
      Inr \<lparr>results = OptimizerState.results (useBestResult 20 limit s'),
           optimizedInput = currentInput (useBestResult 20 limit s'),
           iterations = OptimizerState.iterations (useBestResult 20 limit s'),
           convergenceReached = OptimizerState.convergenceReached (useBestResult 20 limit s'),
           optimizationLog = logLines (useBestResult 20 limit s')\<rparr>"
    using nc loop [unfolded s0_def req_def target_def limit_def]
    by (simp add: optimizeForCompliance_double_def r0 Let_def limit_def)
  have "map_sum id (emissionLimitsMet \<circ> complianceStatus)
       (calculateSprayTower_double HIGH_INLET_input) = Inr False"
    using nc by (simp add: r0)
  moreover have "(200 :: real) < 10 ^ 18 / 2 ^ 52"
    by simp
  moreover have
    "map_sum id convergenceReached (optimizeForCompliance_double HIGH_INLET_input 20) = Inr False"
    "map_sum id iterations (optimizeForCompliance_double HIGH_INLET_input 20) = Inr 21"
    using s' by (simp_all add: opt useBestResult_fields)
  ultimately show ?thesis
    using fw lim double_outlet_high by (simp only: simp_thms)
qed

text \<open>
  C9 (compliance after one iteration), amended. Under the EU framework, for a pollutant
  type with an EU limit and an input whose initial evaluation does not comply and whose
  inlet concentration is at least the limit and at most \<open>1e14\<close> mg/Nm3, the optimizer
  with the default budget of 20 iterations returns after iteration 1 with
  \<open>convergenceReached\<close>: the first strategy changes the L/G ratio and sets the target
  efficiency to the required efficiency, the outlet concentration of the re-evaluation
  is within \<open>inletConcentration / 2 ^ 50\<close> of 0.9 times the limit and at most the limit,
  so it complies, and the log shows the one L/G step and nothing of the other two
  strategies or of the divergence check.
\<close>

theorem C9_one_iteration:
  assumes fw: "regulatoryFramework (settings input) = EU"
    and lim: "euLimits (type (pollutant input)) = Some limit"
    and r0: "calculateSprayTower_double input = Inr r0"
    and nc: "\<not> emissionLimitsMet (complianceStatus r0)"
    and lo: "limit \<le> inletConcentration (pollutant input)"
    and hi: "inletConcentration (pollutant input) \<le> 10 ^ 14"
  shows "\<exists>res. optimizeForCompliance_double input 20 = Inr res
    \<and> iterations res = 1
    \<and> convergenceReached res
    \<and> emissionLimitsMet (complianceStatus (results res))
    \<and> outletConcentration (results res) \<le> limit
    \<and> \<bar>outletConcentration (results res) - 0.9 * limit\<bar>
        \<le> inletConcentration (pollutant input) / 2 ^ 50
    \<and> optimizedInput res = input
         \<lparr>tower := (tower input)\<lparr>lgRatio := lgRatio (tower (optimizedInput res))\<rparr>,
          pollutant := (pollutant input)
            \<lparr>targetEfficiency := requiredEfficiency_double
               (targetOutletConcentration_double limit)
               (inletConcentration (pollutant input))\<rparr>\<rparr>
    \<and> calculateSprayTower_double (optimizedInput res) = Inr (results res)
    \<and> optimizationLog res =
         [LogStart EU,
          LogTarget (type (pollutant input)) (targetEfficiency (pollutant input)),
          LogInitial (outletConcentration r0) False,
          LogLimit limit (targetOutletConcentration_double limit),
          LogRequiredEfficiency (requiredEfficiency_double
            (targetOutletConcentration_double limit) (inletConcentration (pollutant input))),
          LogIncreaseLG 1 (lgRatio (tower (optimizedInput res))),
          LogResult (outletConcentration (results res)) (requiredHeight (results res)) True,
          LogAchieved 1]"
proof -
  let ?inlet = "inletConcentration (pollutant input)"
  let ?P = "operatingPressure (calculateGasProperties (gasStream input))"
  let ?ty = "type (pollutant input)"
  define target where "target = targetOutletConcentration_double limit"
  define req where "req = requiredEfficiency_double target ?inlet"
  define cur where "cur = input
         \<lparr>tower := (tower input)\<lparr>lgRatio := lgRatio (tower input) * 1.1\<rparr>,
          pollutant := (pollutant input)\<lparr>targetEfficiency := req\<rparr>\<rparr>"
  from euLimits_entry [OF lim] obtain d where
    limpos: "0 < limit" and d: "POLLUTANT_LIBRARY ?ty = Some d" by auto
  from euLimits_ge_1 [OF lim] have "?inlet * 1 \<le> ?inlet * limit"
    using lo limpos by (intro mult_left_mono) simp_all
  with hi have "?inlet \<le> 10 ^ 14 * limit"
    using limpos euLimits_ge_1 [OF lim]
      mult_mono [of ?inlet "10 ^ 14" 1 limit] by simp
  from outlet_double_bound [OF limpos lo this] have
    near: "\<bar>outletConcentration_double ?inlet req - 0.9 * limit\<bar> \<le> ?inlet / 2 ^ 50"
    and below: "outletConcentration_double ?inlet req \<le> limit"
    by (simp_all add: req_def target_def)
  have gel: "getEmissionLimits (regulatoryFramework (settings input)) ?ty = limit"
    using limpos by (simp add: getEmissionLimits_def fw lim falsy_or_def)
  have dcur: "POLLUTANT_LIBRARY (type (pollutant cur)) = Some d"
    using d by (simp add: cur_def)
  from calculateSprayTower_double_known [OF dcur] obtain res where
    res: "calculateSprayTower_double cur = Inr res"
    and ores: "outletConcentration res = outletConcentration_double ?inlet req"
    and cres: "complianceStatus res = calculateComplianceStatus EU
        (outletConcentration_double ?inlet req) ?P ?ty"
    by (auto simp: cur_def fw)
  have met: "emissionLimitsMet (complianceStatus res)"
    using not_met_iff [of EU "outletConcentration_double ?inlet req" ?P ?ty] lim below
    unfolding cres by simp
  have strat: "strategy input 20 req (Suc 0) input =
      (cur, LogIncreaseLG (Suc 0) (lgRatio (tower cur)))"
    by (simp add: strategy_def Let_def cur_def)
  define s0 where "s0 = \<lparr>currentInput = input, OptimizerState.results = r0,
      bestResults = None, bestInput = None, OptimizerState.iterations = 1,
      OptimizerState.convergenceReached = False,
      logLines = [LogStart (regulatoryFramework (settings input)),
                  LogTarget ?ty (targetEfficiency (pollutant input)),
                  LogInitial (outletConcentration r0)
                    (emissionLimitsMet (complianceStatus r0)),
                  LogLimit limit target, LogRequiredEfficiency req]\<rparr>"
  define s1 where "s1 = s0
      \<lparr>currentInput := cur, OptimizerState.results := res,
       logLines := logLines s0 @
         [LogIncreaseLG 1 (lgRatio (tower cur)),
          LogResult (outletConcentration res) (requiredHeight res) True,
          LogAchieved 1],
       OptimizerState.convergenceReached := True,
       bestResults := Some res, bestInput := Some cur\<rparr>"
  have s0f: "OptimizerState.iterations s0 = 1" "currentInput s0 = input"
    by (simp_all add: s0_def)
  have loop: "optimizationLoop_double input 20 req target s0 = Inr s1"
    by (subst optimizationLoop_double.simps)
       (simp add: s0f strat res met Let_def s1_def)
  have ub: "useBestResult 20 limit s1 = s1"
    by (simp add: useBestResult_def s1_def)
  have "optimizeForCompliance_double input 20 =
      Inr \<lparr>results = OptimizerState.results s1,
           optimizedInput = currentInput s1,
           iterations = OptimizerState.iterations s1,
           convergenceReached = OptimizerState.convergenceReached s1,
           optimizationLog = logLines s1\<rparr>"
    using nc loop [unfolded s0_def req_def target_def] ub
    by (simp add: optimizeForCompliance_double_def r0 gel Let_def)
  then show ?thesis
    using met ores res nc near below
    by (simp add: s1_def s0_def cur_def req_def target_def fw)
qed

theorem C9_one_iteration_witness:
  "regulatoryFramework (settings NON_COMPLIANT_input) = EU
   \<and> euLimits (type (pollutant NON_COMPLIANT_input)) = Some 200
   \<and> (\<exists>r0. calculateSprayTower_double NON_COMPLIANT_input = Inr r0
         \<and> \<not> emissionLimitsMet (complianceStatus r0))
   \<and> (200 :: real) \<le> inletConcentration (pollutant NON_COMPLIANT_input)
   \<and> inletConcentration (pollutant NON_COMPLIANT_input) \<le> 10 ^ 14
   \<and> (\<exists>res. optimizeForCompliance_double NON_COMPLIANT_input 20 = Inr res
         \<and> iterations res = 1 \<and> convergenceReached res
         \<and> outletConcentration (results res) \<le> 200
         \<and> \<bar>outletConcentration (results res) - 180\<bar> \<le> 1500 / 2 ^ 50)"
proof -
  have fw: "regulatoryFramework (settings NON_COMPLIANT_input) = EU"
    by (rule NON_COMPLIANT_fields)
  have lim: "euLimits (type (pollutant NON_COMPLIANT_input)) = Some 200"
    by (simp add: NON_COMPLIANT_fields euLimits_def)
  have lo: "(200 :: real) \<le> inletConcentration (pollutant NON_COMPLIANT_input)"
    and hi: "inletConcentration (pollutant NON_COMPLIANT_input) \<le> 10 ^ 14"
    by (simp_all add: NON_COMPLIANT_fields)
  from NON_COMPLIANT_initial_double obtain r0 where
    r0: "calculateSprayTower_double NON_COMPLIANT_input = Inr r0"
    and nc: "\<not> emissionLimitsMet (complianceStatus r0)"
    by blast
  from C9_one_iteration [OF fw lim r0 nc lo hi] obtain res where
    "optimizeForCompliance_double NON_COMPLIANT_input 20 = Inr res"
    "iterations res = 1" "convergenceReached res"
    "outletConcentration (results res) \<le> 200"
    "\<bar>outletConcentration (results res) - 0.9 * 200\<bar>
        \<le> inletConcentration (pollutant NON_COMPLIANT_input) / 2 ^ 50"
    by blast
  then have "\<exists>res. optimizeForCompliance_double NON_COMPLIANT_input 20 = Inr res
         \<and> iterations res = 1 \<and> convergenceReached res
         \<and> outletConcentration (results res) \<le> 200
         \<and> \<bar>outletConcentration (results res) - 180\<bar> \<le> 1500 / 2 ^ 50"
    by (simp add: NON_COMPLIANT_fields)
  with fw lim lo hi NON_COMPLIANT_initial_double show ?thesis by blast
qed

section \<open>Zero-valued overrides\<close>

lemma calculatePerformance_kgaOverride:
  "calculatePerformance p (tw\<lparr>kgaOverride := x\<rparr>) q v dia rho lr kga area qop temp =
   calculatePerformance p tw q v dia rho lr kga area qop temp"
  by (simp add: calculatePerformance_def Let_def split: js_member.splits)

lemma calculateMassTransfer_zero_override:
  "calculateMassTransfer p (tw\<lparr>kgaOverride := Some 0\<rparr>) rho mu v flux =
   calculateMassTransfer p (tw\<lparr>kgaOverride := None\<rparr>) rho mu v flux"
  by (simp add: calculateMassTransfer_def falsy_or_def Let_def split: js_member.splits)

lemma calculateGasProperties_zero_override:
  "calculateGasProperties (gs\<lparr>gasViscosity := Some 0\<rparr>) =
   calculateGasProperties (gs\<lparr>gasViscosity := None\<rparr>)"
  by (simp add: calculateGasProperties_def falsy_or_def)

lemma calculateSprayTower_zero_overrides:
  "calculateSprayTower (input\<lparr>gasStream := (gasStream input)\<lparr>gasViscosity := Some 0\<rparr>\<rparr>) =
   calculateSprayTower (input\<lparr>gasStream := (gasStream input)\<lparr>gasViscosity := None\<rparr>\<rparr>)"
  "calculateSprayTower (input\<lparr>tower := (tower input)\<lparr>kgaOverride := Some 0\<rparr>\<rparr>) =
   calculateSprayTower (input\<lparr>tower := (tower input)\<lparr>kgaOverride := None\<rparr>\<rparr>)"
  by (simp_all add: calculateSprayTower_def calculateGasProperties_zero_override
      calculateMassTransfer_zero_override calculatePerformance_kgaOverride Let_def
      split: sum.splits)

text \<open>
  C10 (zero-valued overrides). A gas viscosity given as 0 yields the default effective
  viscosity of 1.85e-5 Pa s, as an absent one does, and for a pollutant of the table a
  \<open>kgaOverride\<close> given as 0 yields the correlated \<open>KGa\<close>, as an absent one does. The
  pipeline returns the same for an override of 0 as for an absent one.
\<close>

theorem C10_zero_override:
  assumes "type p \<in> dom POLLUTANT_LIBRARY"
  shows "effectiveGasViscosity (calculateGasProperties (gs\<lparr>gasViscosity := Some 0\<rparr>)) = 0.0000185
    \<and> calculateGasProperties (gs\<lparr>gasViscosity := Some 0\<rparr>) =
       calculateGasProperties (gs\<lparr>gasViscosity := None\<rparr>)
    \<and> (\<exists>r. calculateMassTransfer p (tw\<lparr>kgaOverride := Some 0\<rparr>) rho mu v flux = Inr r
         \<and> MassTransferResults.overallKGa r = calculatedKGa rho v flux
         \<and> calculateMassTransfer p (tw\<lparr>kgaOverride := None\<rparr>) rho mu v flux = Inr r)
    \<and> calculateSprayTower (input\<lparr>gasStream := (gasStream input)\<lparr>gasViscosity := Some 0\<rparr>\<rparr>) =
       calculateSprayTower (input\<lparr>gasStream := (gasStream input)\<lparr>gasViscosity := None\<rparr>\<rparr>)
    \<and> calculateSprayTower (input\<lparr>tower := (tower input)\<lparr>kgaOverride := Some 0\<rparr>\<rparr>) =
       calculateSprayTower (input\<lparr>tower := (tower input)\<lparr>kgaOverride := None\<rparr>\<rparr>)"
proof -
  from assms obtain d where d: "POLLUTANT_LIBRARY (type p) = Some d" by auto
  have "effectiveGasViscosity (calculateGasProperties (gs\<lparr>gasViscosity := Some 0\<rparr>)) = 0.0000185
    \<and> calculateGasProperties (gs\<lparr>gasViscosity := Some 0\<rparr>) =
       calculateGasProperties (gs\<lparr>gasViscosity := None\<rparr>)
    \<and> (\<exists>r. calculateMassTransfer p (tw\<lparr>kgaOverride := Some 0\<rparr>) rho mu v flux = Inr r
         \<and> MassTransferResults.overallKGa r = calculatedKGa rho v flux
         \<and> calculateMassTransfer p (tw\<lparr>kgaOverride := None\<rparr>) rho mu v flux = Inr r)"
    by (simp add: calculateGasProperties_def calculateMassTransfer_def POLLUTANT_lookup_Own [OF d]
        falsy_or_def MU_GAS_DEFAULT_def Let_def)
  with calculateSprayTower_zero_overrides [of input] show ?thesis by blast
qed

theorem C10_zero_override_witness:
  "type DEFAULT_pollutant \<in> dom POLLUTANT_LIBRARY
   \<and> effectiveGasViscosity (calculateGasProperties (DEFAULT_gasStream\<lparr>gasViscosity := Some 0\<rparr>))
       = 0.0000185
   \<and> (\<exists>r. calculateMassTransfer DEFAULT_pollutant (DEFAULT_tower\<lparr>kgaOverride := Some 0\<rparr>)
             1 1 3 1 = Inr r
        \<and> MassTransferResults.overallKGa r = calculatedKGa 1 3 1)"
proof -
  have k: "type DEFAULT_pollutant \<in> dom POLLUTANT_LIBRARY"
    using DEFAULT_pollutant_known by auto
  from C10_zero_override [OF k, of DEFAULT_gasStream DEFAULT_tower 1 1 3 1 DEFAULT_VALUES] k
  show ?thesis by blast
qed

end
